theory Spec2Isabelle
  imports Main "HOL-Library.Word"
begin

section \<open>The BTC staking message server\<close>

text \<open>
  A shallow embedding of the message handlers of \<^verbatim>\<open>x/btcstaking/keeper/msg_server.go\<close>.
  Each handler is a function from the request and the keeper's state to a result and the
  state it leaves. A returned error, a panic and a success are the three constructors of
  \<open>result\<close>; a handler that fails leaves the state as it found it, since the host ledger
  discards the writes of a failed or panicked transaction. Telemetry, logging and the
  emission of typed events to the host's event manager are left out.
\<close>

subsection \<open>Scalars\<close>

type_synonym bytes = "8 word list"
type_synonym u16 = "16 word"
type_synonym u32 = "32 word"
type_synonym u64 = "64 word"

text \<open>A \<^verbatim>\<open>BIP340PubKey\<close> is a byte slice; \<^verbatim>\<open>MustMarshal\<close> returns those bytes.\<close>

type_synonym BIP340PubKey = bytes

text \<open>
  \<^verbatim>\<open>sdkmath.LegacyDec\<close> is a fixed-point decimal with 18 fractional digits held as
  one big integer; \<^verbatim>\<open>LT\<close> and \<^verbatim>\<open>GT\<close> compare those integers and \<^verbatim>\<open>LegacyOneDec()\<close> is
  \<open>10 ^ 18\<close>.
\<close>

type_synonym LegacyDec = int

definition LegacyOneDec :: LegacyDec where
  "LegacyOneDec = 10 ^ 18"

subsection \<open>Errors and results\<close>

datatype covenant_sig_fault =
    DelegationAlreadyUnbonded
  | SigCountMismatch nat nat
  | SigVerificationFailed

datatype err =
    InvalidArgument
  | PermissionDenied
  | ErrCommissionLTMinRate
  | ErrCommissionGTMaxRate
  | ErrFpNotFound
  | ErrFpAlreadySlashed
  | ErrInvalidProofOfPossession
  | ErrReusedStakingTx
  | ErrBTCDelegationNotFound
  | ErrInvalidCovenantPK
  | ErrDuplicatedCovenantSig
  | ErrInvalidCovenantSig covenant_sig_fault
  | ErrInvalidBTCUndelegateReq
  | AlreadyHasInclusionProof
  | NoCovenantQuorum
  | AlreadyUnbonded
  | InvalidInclusionProof err
  | Collaborator string

datatype 'a result = Ok 'a | Error err | Panic

subsection \<open>Records of the data model\<close>

text \<open>
  Modelled from the spec: the declaration of \<^verbatim>\<open>FinalityProvider\<close> is not among the
  sources. The spec gives it an identity (BTC public key, chain address), a commission
  rate, a description, a slashed flag and a slashing height.
\<close>

record FinalityProvider =
  Addr :: string
  Description :: string
  Commission :: LegacyDec
  BtcPk :: BIP340PubKey
  Slashed :: bool
  SlashedHeight :: u64

text \<open>
  Modelled from the spec: \<^verbatim>\<open>IsSlashed\<close> is not among the sources; it reads the slashed flag.
\<close>

definition IsSlashed :: "FinalityProvider \<Rightarrow> bool" where
  "IsSlashed fp = Slashed fp"

text \<open>
  Modelled from the spec: the declaration of \<^verbatim>\<open>BTCUndelegation\<close> is not among the
  sources. It holds the unbonding transaction, its slashing-path template, the staker's
  two signatures (the unbonding one present only once voluntary unbonding occurred) and
  the covenant signatures, kept per covenant member under the member's public key.
\<close>

record BTCUndelegation =
  UnbondingTx :: bytes
  UnbondingSlashingTx :: bytes
  DelegatorSlashingSig :: bytes
  DelegatorUnbondingSig :: "bytes option"
  CovenantSlashingSigs :: "(BIP340PubKey \<times> bytes list) list"
  CovenantUnbondingSigList :: "(BIP340PubKey \<times> bytes) list"

text \<open>
  Modelled from the spec: the declaration of \<^verbatim>\<open>BTCDelegation\<close> is not among the sources;
  the fields are those the handlers read and write, with the integer widths of the
  conversions the handlers apply. The undelegation is never nil in a stored delegation.
\<close>

record BTCDelegation =
  StakerAddr :: string
  StakerBtcPk :: BIP340PubKey
  Pop :: bytes
  FpBtcPkList :: "BIP340PubKey list"
  StakingTime :: u32
  StartHeight :: u64
  EndHeight :: u64
  TotalSat :: u64
  StakingTx :: bytes
  StakingOutputIdx :: u32
  SlashingTx :: bytes
  DelegatorSig :: bytes
  UnbondingTime :: u32
  CovenantSigs :: "(BIP340PubKey \<times> bytes list) list"
  BtcUndelegation :: BTCUndelegation
  ParamsVersion :: u32

text \<open>
  Modelled from the spec: the parameter record is not among the sources. The spec lists
  covenant keys, covenant quorum, minimum commission rate and the creation fee; value and
  time bounds are consulted only by the validation of a parsed message, which is a
  collaborator here.
\<close>

record Params =
  CovenantPks :: "BIP340PubKey list"
  CovenantQuorum :: u32
  MinCommissionRate :: LegacyDec
  DelegationCreationBaseGasFee :: u64

text \<open>
  Modelled from the spec: the stored form of the parameters is not among the sources; it
  pairs a parameter set with its version.
\<close>

record StoredParams =
  Version :: u32
  StoredParamsOf :: Params

datatype BTCDelegationStatus = PENDING | ACTIVE | UNBONDED

record EventBTCDelegationStateUpdate =
  EventStakingTxHash :: string
  NewState :: BTCDelegationStatus

text \<open>
  Modelled from the spec: a power-distribution event is a tagged variant; the log is
  append-only and indexed by BTC height, same-height events in insertion order.
\<close>

datatype EventPowerDistUpdate =
    BtcDelStateUpdate EventBTCDelegationStateUpdate
  | SlashedFp BIP340PubKey

definition NewEventPowerDistUpdateWithBTCDel ::
  "EventBTCDelegationStateUpdate \<Rightarrow> EventPowerDistUpdate" where
  "NewEventPowerDistUpdateWithBTCDel ev = BtcDelStateUpdate ev"

subsection \<open>Bitcoin transactions and parsed messages\<close>

record MsgTx =
  TxIn :: "bytes list"
  TxOut :: "bytes list"

record ParsedBtcTx =
  Transaction :: MsgTx
  TransactionBytes :: bytes

type_synonym ParsedProofOfInclusion = bytes

text \<open>
  Modelled from the spec: the parsed creation message is declared outside the sources.
  The handler widens its staking and unbonding times to 32 and 64 bits, so they are the
  16-bit block counts of a Bitcoin relative timelock; the staking value is converted to
  64 unsigned bits without change of representation.
\<close>

record ParsedCreateDelegationMessage =
  StakerAddress :: bytes
  StakerPK :: BIP340PubKey
  ParsedPop :: bytes
  ParsedStakingTx :: ParsedBtcTx
  FinalityProviderKeys :: "BIP340PubKey list"
  ParsedStakingTime :: u16
  StakingValue :: u64
  StakingSlashingTx :: ParsedBtcTx
  StakerStakingSlashingTxSig :: bytes
  ParsedUnbondingTime :: u16
  ParsedUnbondingTx :: ParsedBtcTx
  ParsedUnbondingSlashingTx :: ParsedBtcTx
  StakerUnbondingSlashingSig :: bytes
  StakingTxProofOfInclusion :: "ParsedProofOfInclusion option"

subsection \<open>Requests\<close>

text \<open>A creation request arrives in wire form and is parsed by a collaborator.\<close>

type_synonym MsgCreateBTCDelegation = bytes

record MsgEditFinalityProvider =
  EditAddr :: string
  EditDescription :: string
  EditCommission :: LegacyDec
  EditBtcPk :: bytes

record MsgAddBTCDelegationInclusionProof =
  ProofStakingTxHash :: string
  StakingTxInclusionProof :: bytes

record MsgAddCovenantSigs =
  Pk :: BIP340PubKey
  CovStakingTxHash :: string
  SlashingTxSigs :: "bytes list"
  UnbondingTxSig :: bytes
  SlashingUnbondingTxSigs :: "bytes list"

record MsgBTCUndelegate =
  UndelStakingTxHash :: string
  UndelUnbondingTxSig :: bytes

record MsgSelectiveSlashingEvidence =
  EvidenceStakingTxHash :: string
  RecoveredFpBtcSk :: bytes

datatype RefundableMsg =
    RefundInclusionProof MsgAddBTCDelegationInclusionProof
  | RefundCovenantSigs MsgAddCovenantSigs
  | RefundUndelegate MsgBTCUndelegate
  | RefundSlashingEvidence MsgSelectiveSlashingEvidence

subsection \<open>Keeper state\<close>

text \<open>
  Modelled from the spec: the keeper's stores are not among the sources. The delegation
  store maps a staking-transaction hash to its delegation, the registry maps a BTC public
  key to its finality provider, the parameter store keeps every version together with the
  one in force, and the refund indexer records the messages marked refundable.
\<close>

record keeper_state =
  finalityProviders :: "bytes \<rightharpoonup> FinalityProvider"
  btcDelegations :: "string \<rightharpoonup> BTCDelegation"
  powerDistUpdateEvents :: "(u64 \<times> EventPowerDistUpdate) list"
  currentParams :: StoredParams
  paramsByVersion :: "u32 \<rightharpoonup> Params"
  gasConsumed :: nat
  refundableMsgs :: "RefundableMsg list"

subsection \<open>Collaborators\<close>

text \<open>
  Stateless message checks, encodings, the script builders, the cryptographic verifier,
  the inclusion-proof checker and the two external heights are taken as parameters: the
  handlers are verified for every behaviour of these collaborators.
\<close>

record codec =
  EditValidateBasic :: "MsgEditFinalityProvider \<Rightarrow> bool"
  CovSigsValidateBasic :: "MsgAddCovenantSigs \<Rightarrow> bool"
  UndelegateValidateBasic :: "MsgBTCUndelegate \<Rightarrow> bool"
  AccAddressFromBech32 :: "string \<Rightarrow> bytes option"
  AccAddressString :: "bytes \<Rightarrow> string"
  EqualFoldUnicode :: "string \<Rightarrow> string \<Rightarrow> bool"
  ParseCreateDelegationMessage :: "MsgCreateBTCDelegation \<Rightarrow> ParsedCreateDelegationMessage option"
  NewBTCTxFromBytes :: "bytes \<Rightarrow> err + MsgTx"
  TxHash :: "MsgTx \<Rightarrow> string"
  NewParsedProofOfInclusion :: "bytes \<Rightarrow> err + ParsedProofOfInclusion"
  PrivKeyFromBytes :: "bytes \<Rightarrow> bytes \<times> BIP340PubKey"
  ToBTCPK :: "BIP340PubKey \<Rightarrow> bytes option"

record StakingInfo =
  StakingOutput :: bytes

type_synonym SpendInfo = bytes

record verifier =
  PopVerify :: "bytes \<Rightarrow> bytes \<Rightarrow> BIP340PubKey \<Rightarrow> bool"
  ValidateParsedMessageAgainstTheParams :: "ParsedCreateDelegationMessage \<Rightarrow> Params \<Rightarrow> err + u32"
  VerifyInclusionProofAndGetHeight :: "MsgTx \<Rightarrow> u64 \<Rightarrow> ParsedProofOfInclusion \<Rightarrow> err + u64"
  GetStakingInfo :: "BTCDelegation \<Rightarrow> Params \<Rightarrow> StakingInfo option"
  GetUnbondingInfo :: "BTCDelegation \<Rightarrow> Params \<Rightarrow> StakingInfo option"
  SlashingPathSpendInfo :: "StakingInfo \<Rightarrow> SpendInfo option"
  UnbondingPathSpendInfo :: "StakingInfo \<Rightarrow> SpendInfo option"
  GetPkScriptPath :: "SpendInfo \<Rightarrow> bytes"
  ParseEncVerifyAdaptorSignatures ::
    "bytes \<Rightarrow> bytes \<Rightarrow> SpendInfo \<Rightarrow> BIP340PubKey \<Rightarrow> BIP340PubKey list \<Rightarrow> bytes list \<Rightarrow> bytes list option"
  VerifyTransactionSigWithOutput ::
    "MsgTx \<Rightarrow> bytes \<Rightarrow> bytes \<Rightarrow> bytes \<Rightarrow> bytes \<Rightarrow> bool"

record env =
  cdc :: codec
  vrf :: verifier
  btcTipHeight :: u64
  CheckpointFinalizationTimeout :: u64

subsection \<open>Finality provider registry\<close>

text \<open>
  Modelled from the spec: \<^verbatim>\<open>GetFinalityProvider\<close> is not among the sources; a lookup of an
  unknown key fails with the not-found error.
\<close>

definition GetFinalityProvider :: "keeper_state \<Rightarrow> bytes \<Rightarrow> err + FinalityProvider" where
  "GetFinalityProvider s pk =
     (case finalityProviders s pk of None \<Rightarrow> Inl ErrFpNotFound | Some fp \<Rightarrow> Inr fp)"

text \<open>
  Modelled from the spec: \<^verbatim>\<open>setFinalityProvider\<close> is not among the sources; it stores the
  record under its own BTC public key.
\<close>

definition setFinalityProvider :: "keeper_state \<Rightarrow> FinalityProvider \<Rightarrow> keeper_state" where
  "setFinalityProvider s fp = s\<lparr>finalityProviders := (finalityProviders s)(BtcPk fp \<mapsto> fp)\<rparr>"

text \<open>
  Modelled from the spec: \<^verbatim>\<open>MinCommissionRate\<close> of the keeper is not among the sources; it
  reads the rate of the parameters in force.
\<close>

definition GetMinCommissionRate :: "keeper_state \<Rightarrow> LegacyDec" where
  "GetMinCommissionRate s = MinCommissionRate (StoredParamsOf (currentParams s))"

text \<open>
  \<^verbatim>\<open>strings.EqualFold\<close> compares two UTF-8 strings under Unicode simple case folding.
  A string is a list of bytes here. On two strings of ASCII bytes the comparison is
  equality after mapping \<open>A..Z\<close> to \<open>a..z\<close>; as soon as one of them holds a byte
  outside ASCII the answer is that of the library's Unicode folding, which is the
  collaborator \<open>EqualFoldUnicode\<close>.
\<close>

definition isASCII :: "string \<Rightarrow> bool" where
  "isASCII a = list_all (\<lambda>c. (of_char c :: nat) < 128) a"

definition toLower :: "char \<Rightarrow> char" where
  "toLower c = (if 65 \<le> (of_char c :: nat) \<and> (of_char c :: nat) \<le> 90
                then char_of ((of_char c :: nat) + 32) else c)"

definition EqualFold :: "codec \<Rightarrow> string \<Rightarrow> string \<Rightarrow> bool" where
  "EqualFold c a b =
     (if isASCII a \<and> isASCII b then map toLower a = map toLower b
      else EqualFoldUnicode c a b)"

definition EditFinalityProvider ::
  "env \<Rightarrow> MsgEditFinalityProvider \<Rightarrow> keeper_state \<Rightarrow> unit result \<times> keeper_state" where
  "EditFinalityProvider e req s =
     (if \<not> EditValidateBasic (cdc e) req then (Error InvalidArgument, s)
      else if EditCommission req < GetMinCommissionRate s then (Error ErrCommissionLTMinRate, s)
      else if EditCommission req > LegacyOneDec then (Error ErrCommissionGTMaxRate, s)
      else (case GetFinalityProvider s (EditBtcPk req) of
              Inl er \<Rightarrow> (Error er, s)
            | Inr fp \<Rightarrow>
               (case AccAddressFromBech32 (cdc e) (EditAddr req) of
                  None \<Rightarrow> (Error InvalidArgument, s)
                | Some fpAddr \<Rightarrow>
                   if \<not> EqualFold (cdc e) (AccAddressString (cdc e) fpAddr) (Addr fp)
                   then (Error PermissionDenied, s)
                   else (Ok (),
                         setFinalityProvider s
                           (fp\<lparr>Description := EditDescription req,
                               Commission := EditCommission req\<rparr>)))))"

subsection \<open>Delegation store and parameter store\<close>

text \<open>
  The delegation store of section 4.3 of the spec: a delegation's key is the hash of its
  own staking transaction; the hash and its printed form are identified.
\<close>

text \<open>
  Modelled from the spec: \<^verbatim>\<open>getBTCDelegation\<close> is not among the sources; it returns the
  stored delegation, or nothing.
\<close>

definition getBTCDelegation :: "keeper_state \<Rightarrow> string \<Rightarrow> BTCDelegation option" where
  "getBTCDelegation s h = btcDelegations s h"

text \<open>
  Modelled from the spec: \<^verbatim>\<open>GetBTCDelegation\<close> is not among the sources; \<open>Get\<close> fails with
  the not-found error.
\<close>

definition GetBTCDelegation :: "keeper_state \<Rightarrow> string \<Rightarrow> err + BTCDelegation" where
  "GetBTCDelegation s h =
     (case btcDelegations s h of None \<Rightarrow> Inl ErrBTCDelegationNotFound | Some d \<Rightarrow> Inr d)"

text \<open>
  Modelled from the spec: \<^verbatim>\<open>GetStakingTxHash\<close> is not among the sources; it parses the
  delegation's staking transaction and hashes it, and fails when the bytes do not parse.
\<close>

definition GetStakingTxHash :: "env \<Rightarrow> BTCDelegation \<Rightarrow> string option" where
  "GetStakingTxHash e d =
     (case NewBTCTxFromBytes (cdc e) (StakingTx d) of
        Inl er \<Rightarrow> None
      | Inr tx \<Rightarrow> Some (TxHash (cdc e) tx))"

text \<open>
  Modelled from the spec: \<^verbatim>\<open>AddBTCDelegation\<close> is not among the sources; \<open>Insert\<close> fails
  when a record with the same staking-transaction hash exists.
\<close>

definition AddBTCDelegation :: "env \<Rightarrow> keeper_state \<Rightarrow> BTCDelegation \<Rightarrow> keeper_state option" where
  "AddBTCDelegation e s d =
     (case GetStakingTxHash e d of
        None \<Rightarrow> None
      | Some h \<Rightarrow>
         (case btcDelegations s h of
            Some old \<Rightarrow> None
          | None \<Rightarrow> Some (s\<lparr>btcDelegations := (btcDelegations s)(h \<mapsto> d)\<rparr>)))"

text \<open>
  Modelled from the spec: \<^verbatim>\<open>setBTCDelegation\<close> is not among the sources; \<open>Update\<close>
  replaces in place, and the key cannot be computed when the staking transaction does
  not parse.
\<close>

definition setBTCDelegation :: "env \<Rightarrow> keeper_state \<Rightarrow> BTCDelegation \<Rightarrow> keeper_state option" where
  "setBTCDelegation e s d =
     (case GetStakingTxHash e d of
        None \<Rightarrow> None
      | Some h \<Rightarrow> Some (s\<lparr>btcDelegations := (btcDelegations s)(h \<mapsto> d)\<rparr>))"

text \<open>
  Modelled from the spec: \<^verbatim>\<open>GetParamsByVersion\<close> is not among the sources; it returns the
  parameters stored under a version, or nothing.
\<close>

definition GetParamsByVersion :: "keeper_state \<Rightarrow> u32 \<Rightarrow> Params option" where
  "GetParamsByVersion s v = paramsByVersion s v"

text \<open>
  Modelled from the spec: \<^verbatim>\<open>GetParamsWithVersion\<close> is not among the sources; it returns
  the parameters in force with their version.
\<close>

definition GetParamsWithVersion :: "keeper_state \<Rightarrow> StoredParams" where
  "GetParamsWithVersion s = currentParams s"

text \<open>
  Modelled from the spec: \<^verbatim>\<open>addPowerDistUpdateEvent\<close> is not among the sources; the log is
  append-only, indexed by height, in insertion order.
\<close>

definition addPowerDistUpdateEvent ::
  "keeper_state \<Rightarrow> u64 \<Rightarrow> EventPowerDistUpdate \<Rightarrow> keeper_state" where
  "addPowerDistUpdateEvent s h ev =
     s\<lparr>powerDistUpdateEvents := powerDistUpdateEvents s @ [(h, ev)]\<rparr>"

text \<open>
  Modelled from the spec: \<^verbatim>\<open>IndexRefundableMsg\<close> belongs to the refund indexer, which is
  not among the sources; it marks a message as refundable.
\<close>

definition IndexRefundableMsg :: "keeper_state \<Rightarrow> RefundableMsg \<Rightarrow> keeper_state" where
  "IndexRefundableMsg s m = s\<lparr>refundableMsgs := refundableMsgs s @ [m]\<rparr>"

text \<open>
  Modelled from the spec: the gas meter belongs to the host; charging the creation fee
  adds to the gas consumed.
\<close>

definition ConsumeGas :: "keeper_state \<Rightarrow> u64 \<Rightarrow> keeper_state" where
  "ConsumeGas s n = s\<lparr>gasConsumed := gasConsumed s + unat n\<rparr>"

subsection \<open>Queries on a delegation\<close>

text \<open>
  Modelled from the spec: \<^verbatim>\<open>HasInclusionProof\<close> is not among the sources; both heights are
  zero until inclusion is proven.
\<close>

definition HasInclusionProof :: "BTCDelegation \<Rightarrow> bool" where
  "HasInclusionProof d = (StartHeight d > 0 \<and> EndHeight d > 0)"

text \<open>
  Modelled from the spec: \<^verbatim>\<open>HasCovenantPK\<close> is not among the sources; the key is one of
  the parameter set's covenant keys.
\<close>

definition HasCovenantPK :: "Params \<Rightarrow> BIP340PubKey \<Rightarrow> bool" where
  "HasCovenantPK p pk = (pk \<in> set (CovenantPks p))"

text \<open>
  Modelled from the spec: \<^verbatim>\<open>IsSignedByCovMember\<close> of a delegation is not among the sources;
  the member has signed the staking-slashing path when a signature set is recorded under
  its key.
\<close>

definition IsSignedByCovMember :: "BTCDelegation \<Rightarrow> BIP340PubKey \<Rightarrow> bool" where
  "IsSignedByCovMember d pk = (pk \<in> set (map fst (CovenantSigs d)))"

text \<open>
  Modelled from the spec: \<^verbatim>\<open>IsSignedByCovMember\<close> of an undelegation is not among the
  sources; the member has signed the unbonding-slashing path when a signature set is
  recorded under its key.
\<close>

definition UndelIsSignedByCovMember :: "BTCUndelegation \<Rightarrow> BIP340PubKey \<Rightarrow> bool" where
  "UndelIsSignedByCovMember ud pk = (pk \<in> set (map fst (CovenantSlashingSigs ud)))"

text \<open>
  Modelled from the spec: \<^verbatim>\<open>HasCovenantQuorums\<close> is not among the sources; the quorum is
  reached when at least that many members have each of the three signature sets recorded.
\<close>

definition HasCovenantQuorums :: "BTCDelegation \<Rightarrow> u32 \<Rightarrow> bool" where
  "HasCovenantQuorums d q =
     (unat q \<le> length (CovenantSigs d)
      \<and> unat q \<le> length (CovenantSlashingSigs (BtcUndelegation d))
      \<and> unat q \<le> length (CovenantUnbondingSigList (BtcUndelegation d)))"

text \<open>
  Modelled from the spec: \<^verbatim>\<open>IsUnbondedEarly\<close> is not among the sources; an early-unbonding
  signature is recorded.
\<close>

definition IsUnbondedEarly :: "BTCDelegation \<Rightarrow> bool" where
  "IsUnbondedEarly d = (DelegatorUnbondingSig (BtcUndelegation d) \<noteq> None)"

text \<open>
  Modelled from the spec: \<^verbatim>\<open>GetStatus\<close> is not among the sources; the status is derived as
  section 4.4 of the spec writes it, a recorded unbonding signature taking precedence.
\<close>

definition GetStatus :: "BTCDelegation \<Rightarrow> u64 \<Rightarrow> u64 \<Rightarrow> u32 \<Rightarrow> BTCDelegationStatus" where
  "GetStatus d btcHeight w covenantQuorum =
     (if DelegatorUnbondingSig (BtcUndelegation d) \<noteq> None then UNBONDED
      else if \<not> HasInclusionProof d \<or> \<not> HasCovenantQuorums d covenantQuorum then PENDING
      else if btcHeight < EndHeight d - w then ACTIVE
      else UNBONDED)"

text \<open>
  Modelled from the spec: \<^verbatim>\<open>GetFpIdx\<close> is not among the sources; it is the position of
  the key in the delegation's provider list, or \<open>-1\<close> when the key is absent.
\<close>

fun indexOf :: "'a list \<Rightarrow> 'a \<Rightarrow> int" where
  "indexOf [] x = - 1"
| "indexOf (y # ys) x =
     (if y = x then 0
      else (let r = indexOf ys x in if r = - 1 then - 1 else r + 1))"

definition GetFpIdx :: "BTCDelegation \<Rightarrow> BIP340PubKey \<Rightarrow> int" where
  "GetFpIdx d pk = indexOf (FpBtcPkList d) pk"

text \<open>
  Modelled from the spec: a signature set is recorded under the member's key, replacing
  an earlier set of the same member.
\<close>

fun putSig :: "BIP340PubKey \<Rightarrow> 'a \<Rightarrow> (BIP340PubKey \<times> 'a) list \<Rightarrow> (BIP340PubKey \<times> 'a) list" where
  "putSig pk v [] = [(pk, v)]"
| "putSig pk v ((k, old) # rest) =
     (if k = pk then (k, v) # rest else (k, old) # putSig pk v rest)"

text \<open>
  Modelled from the spec: \<^verbatim>\<open>addCovenantSigsToBTCDelegation\<close> is not among the sources; it
  records all three signature sets under the covenant member's key and updates the store.
\<close>

definition addCovenantSigsToBTCDelegation ::
  "env \<Rightarrow> keeper_state \<Rightarrow> BTCDelegation \<Rightarrow> BIP340PubKey \<Rightarrow> bytes list \<Rightarrow> bytes \<Rightarrow> bytes list
     \<Rightarrow> keeper_state option" where
  "addCovenantSigsToBTCDelegation e s d pk slashingSigs unbondingSig unbondingSlashingSigs =
     setBTCDelegation e s
       (d\<lparr>CovenantSigs := putSig pk slashingSigs (CovenantSigs d),
          BtcUndelegation := (BtcUndelegation d)
            \<lparr>CovenantSlashingSigs :=
               putSig pk unbondingSlashingSigs (CovenantSlashingSigs (BtcUndelegation d)),
             CovenantUnbondingSigList :=
               putSig pk unbondingSig (CovenantUnbondingSigList (BtcUndelegation d))\<rparr>\<rparr>)"

text \<open>
  Modelled from the spec: \<^verbatim>\<open>btcUndelegate\<close> is not among the sources; it records the
  staker's unbonding signature and updates the store.
\<close>

definition btcUndelegate ::
  "env \<Rightarrow> keeper_state \<Rightarrow> BTCDelegation \<Rightarrow> bytes \<Rightarrow> keeper_state option" where
  "btcUndelegate e s d unbondingSig =
     setBTCDelegation e s
       (d\<lparr>BtcUndelegation := (BtcUndelegation d)\<lparr>DelegatorUnbondingSig := Some unbondingSig\<rparr>\<rparr>)"

text \<open>
  Modelled from the spec: \<^verbatim>\<open>SlashFinalityProvider\<close> is not among the sources; it marks the
  provider slashed at the current BTC height, once and for good, and fails for an unknown
  or already slashed provider.
\<close>

definition SlashFinalityProvider :: "env \<Rightarrow> keeper_state \<Rightarrow> bytes \<Rightarrow> err + keeper_state" where
  "SlashFinalityProvider e s pk =
     (case finalityProviders s pk of
        None \<Rightarrow> Inl ErrFpNotFound
      | Some fp \<Rightarrow>
         if IsSlashed fp then Inl ErrFpAlreadySlashed
         else Inr (setFinalityProvider s (fp\<lparr>Slashed := True, SlashedHeight := btcTipHeight e\<rparr>)))"

subsection \<open>CreateBTCDelegation\<close>

fun checkFinalityProviders :: "keeper_state \<Rightarrow> BIP340PubKey list \<Rightarrow> err option" where
  "checkFinalityProviders s [] = None"
| "checkFinalityProviders s (fpBTCPK # rest) =
     (case GetFinalityProvider s fpBTCPK of
        Inl er \<Rightarrow> Some er
      | Inr fp \<Rightarrow>
         if IsSlashed fp then Some ErrFpAlreadySlashed
         else checkFinalityProviders s rest)"

definition newBTCDel ::
  "env \<Rightarrow> ParsedCreateDelegationMessage \<Rightarrow> u64 \<Rightarrow> u64 \<Rightarrow> u32 \<Rightarrow> u32 \<Rightarrow> BTCDelegation" where
  "newBTCDel e parsedMsg startHeight endHeight stakingOutputIdx version =
     \<lparr>StakerAddr = AccAddressString (cdc e) (StakerAddress parsedMsg),
      StakerBtcPk = StakerPK parsedMsg,
      Pop = ParsedPop parsedMsg,
      FpBtcPkList = FinalityProviderKeys parsedMsg,
      StakingTime = ucast (ParsedStakingTime parsedMsg),
      StartHeight = startHeight,
      EndHeight = endHeight,
      TotalSat = StakingValue parsedMsg,
      StakingTx = TransactionBytes (ParsedStakingTx parsedMsg),
      StakingOutputIdx = stakingOutputIdx,
      SlashingTx = TransactionBytes (StakingSlashingTx parsedMsg),
      DelegatorSig = StakerStakingSlashingTxSig parsedMsg,
      UnbondingTime = ucast (ParsedUnbondingTime parsedMsg),
      CovenantSigs = [],
      BtcUndelegation =
        \<lparr>UnbondingTx = TransactionBytes (ParsedUnbondingTx parsedMsg),
         UnbondingSlashingTx = TransactionBytes (ParsedUnbondingSlashingTx parsedMsg),
         DelegatorSlashingSig = StakerUnbondingSlashingSig parsedMsg,
         DelegatorUnbondingSig = None,
         CovenantSlashingSigs = [],
         CovenantUnbondingSigList = []\<rparr>,
      ParamsVersion = version\<rparr>"

text \<open>
  Steps 6 and 7 of the handler: the heights come from the inline proof when there is one;
  without it the creation fee is consumed and both heights keep the zero value of their
  declaration. A failing insertion of the verified delegation is a panic.
\<close>

definition createVerified ::
  "env \<Rightarrow> keeper_state \<Rightarrow> ParsedCreateDelegationMessage \<Rightarrow> StoredParams \<Rightarrow> u32
     \<Rightarrow> unit result \<times> keeper_state" where
  "createVerified e s parsedMsg vp stakingOutputIdx =
     (case StakingTxProofOfInclusion parsedMsg of
        Some proof \<Rightarrow>
          (case VerifyInclusionProofAndGetHeight (vrf e)
                  (Transaction (ParsedStakingTx parsedMsg))
                  (ucast (ParsedStakingTime parsedMsg)) proof of
             Inl er \<Rightarrow> (Error (InvalidInclusionProof er), s)
           | Inr inclusionHeight \<Rightarrow>
              (let startHeight = inclusionHeight;
                   endHeight = startHeight + ucast (ParsedStakingTime parsedMsg)
               in case AddBTCDelegation e s
                         (newBTCDel e parsedMsg startHeight endHeight stakingOutputIdx (Version vp)) of
                    None \<Rightarrow> (Panic, s)
                  | Some s' \<Rightarrow> (Ok (), s')))
      | None \<Rightarrow>
          (case AddBTCDelegation e
                  (ConsumeGas s (DelegationCreationBaseGasFee (StoredParamsOf vp)))
                  (newBTCDel e parsedMsg 0 0 stakingOutputIdx (Version vp)) of
             None \<Rightarrow> (Panic, s)
           | Some s' \<Rightarrow> (Ok (), s')))"

definition CreateBTCDelegation ::
  "env \<Rightarrow> MsgCreateBTCDelegation \<Rightarrow> keeper_state \<Rightarrow> unit result \<times> keeper_state" where
  "CreateBTCDelegation e req s =
     (case ParseCreateDelegationMessage (cdc e) req of
        None \<Rightarrow> (Error InvalidArgument, s)
      | Some parsedMsg \<Rightarrow>
         if \<not> PopVerify (vrf e) (ParsedPop parsedMsg) (StakerAddress parsedMsg) (StakerPK parsedMsg)
         then (Error ErrInvalidProofOfPossession, s)
         else if getBTCDelegation s (TxHash (cdc e) (Transaction (ParsedStakingTx parsedMsg))) \<noteq> None
         then (Error ErrReusedStakingTx, s)
         else (case checkFinalityProviders s (FinalityProviderKeys parsedMsg) of
                 Some er \<Rightarrow> (Error er, s)
               | None \<Rightarrow>
                  (let vp = GetParamsWithVersion s
                   in case ValidateParsedMessageAgainstTheParams (vrf e) parsedMsg (StoredParamsOf vp) of
                        Inl er \<Rightarrow> (Error er, s)
                      | Inr stakingOutputIdx \<Rightarrow>
                          createVerified e s parsedMsg vp stakingOutputIdx)))"

subsection \<open>AddBTCDelegationInclusionProof\<close>

definition getBTCDelWithParams ::
  "keeper_state \<Rightarrow> string \<Rightarrow> (BTCDelegation \<times> Params) result" where
  "getBTCDelWithParams s stakingTxHash =
     (case GetBTCDelegation s stakingTxHash of
        Inl er \<Rightarrow> Error er
      | Inr btcDel \<Rightarrow>
         (case GetParamsByVersion s (ParamsVersion btcDel) of
            None \<Rightarrow> Panic
          | Some bsParams \<Rightarrow> Ok (btcDel, bsParams)))"

text \<open>
  Steps 6 and 7 of the handler, once the inclusion height is verified: the heights are
  written, the delegation saved, the two power-distribution events appended and the
  message indexed as refundable.
\<close>

definition recordInclusion ::
  "env \<Rightarrow> MsgAddBTCDelegationInclusionProof \<Rightarrow> keeper_state \<Rightarrow> BTCDelegation \<Rightarrow> u64
     \<Rightarrow> unit result \<times> keeper_state" where
  "recordInclusion e req s btcDel inclusionHeight =
     (let btcDel1 = btcDel\<lparr>StartHeight := inclusionHeight\<rparr>;
          btcDel2 = btcDel1\<lparr>EndHeight := StartHeight btcDel1 + ucast (StakingTime btcDel1)\<rparr>
      in case setBTCDelegation e s btcDel2 of
           None \<Rightarrow> (Panic, s)
         | Some s1 \<Rightarrow>
            (case GetStakingTxHash e btcDel2 of
               None \<Rightarrow> (Panic, s)
             | Some h \<Rightarrow>
                (let event = \<lparr>EventStakingTxHash = h, NewState = ACTIVE\<rparr>;
                     activeEvent = NewEventPowerDistUpdateWithBTCDel event;
                     s2 = addPowerDistUpdateEvent s1 (btcTipHeight e) activeEvent;
                     unbondedEvent = NewEventPowerDistUpdateWithBTCDel
                       \<lparr>EventStakingTxHash = ProofStakingTxHash req, NewState = UNBONDED\<rparr>;
                     wValue = CheckpointFinalizationTimeout e;
                     s3 = addPowerDistUpdateEvent s2 (EndHeight btcDel2 - wValue) unbondedEvent
                 in (Ok (), IndexRefundableMsg s3 (RefundInclusionProof req)))))"

definition AddBTCDelegationInclusionProof ::
  "env \<Rightarrow> MsgAddBTCDelegationInclusionProof \<Rightarrow> keeper_state \<Rightarrow> unit result \<times> keeper_state" where
  "AddBTCDelegationInclusionProof e req s =
     (case getBTCDelWithParams s (ProofStakingTxHash req) of
        Error er \<Rightarrow> (Error er, s)
      | Panic \<Rightarrow> (Panic, s)
      | Ok (btcDel, params) \<Rightarrow>
         if HasInclusionProof btcDel then (Error AlreadyHasInclusionProof, s)
         else if \<not> HasCovenantQuorums btcDel (CovenantQuorum params) then (Error NoCovenantQuorum, s)
         else if DelegatorUnbondingSig (BtcUndelegation btcDel) \<noteq> None then (Error AlreadyUnbonded, s)
         else (case NewParsedProofOfInclusion (cdc e) (StakingTxInclusionProof req) of
                 Inl er \<Rightarrow> (Error er, s)
               | Inr parsedInclusionProof \<Rightarrow>
                  (case NewBTCTxFromBytes (cdc e) (StakingTx btcDel) of
                     Inl er \<Rightarrow> (Error er, s)
                   | Inr stakingTx \<Rightarrow>
                      (case VerifyInclusionProofAndGetHeight (vrf e) stakingTx
                              (ucast (StakingTime btcDel)) parsedInclusionProof of
                         Inl er \<Rightarrow> (Error (InvalidInclusionProof er), s)
                       | Inr inclusionHeight \<Rightarrow>
                          recordInclusion e req s btcDel inclusionHeight))))"

subsection \<open>AddCovenantSigs\<close>

text \<open>
  The handler's calls into the cryptographic verifier are logged in the order they are
  made, so that what ran before a rejection can be stated.
\<close>

datatype crypto_call =
    VerifySlashingAdaptorSigs
  | VerifyUnbondingSchnorrSig
  | VerifyUnbondingSlashingAdaptorSigs

text \<open>
  The second half of the handler, from the second count check to the end, entered with the
  staking info and the adaptor signatures that the first half has parsed and verified.
\<close>

definition covenantSigsUnbondingPart ::
  "env \<Rightarrow> MsgAddCovenantSigs \<Rightarrow> keeper_state \<Rightarrow> BTCDelegation \<Rightarrow> Params \<Rightarrow> StakingInfo
     \<Rightarrow> bytes list \<Rightarrow> unit result \<times> keeper_state \<times> crypto_call list" where
  "covenantSigsUnbondingPart e req s btcDel params stakingInfo parsedSlashingAdaptorSignatures =
     (if length (SlashingUnbondingTxSigs req) \<noteq> length (FpBtcPkList btcDel)
      then (Error (ErrInvalidCovenantSig
                     (SigCountMismatch (length (SlashingUnbondingTxSigs req))
                                       (length (FpBtcPkList btcDel)))),
            s, [VerifySlashingAdaptorSigs])
      else (case NewBTCTxFromBytes (cdc e) (UnbondingTx (BtcUndelegation btcDel)) of
         Inl er \<Rightarrow> (Panic, s, [VerifySlashingAdaptorSigs])
       | Inr unbondingMsgTx \<Rightarrow>
       (case UnbondingPathSpendInfo (vrf e) stakingInfo of
         None \<Rightarrow> (Panic, s, [VerifySlashingAdaptorSigs])
       | Some unbondingSpendInfo \<Rightarrow>
       (case ToBTCPK (cdc e) (Pk req) of
         None \<Rightarrow> (Panic, s, [VerifySlashingAdaptorSigs])
       | Some covBTCPK \<Rightarrow>
       if \<not> VerifyTransactionSigWithOutput (vrf e) unbondingMsgTx (StakingOutput stakingInfo)
               (GetPkScriptPath (vrf e) unbondingSpendInfo) covBTCPK (UnbondingTxSig req)
       then (Error (ErrInvalidCovenantSig SigVerificationFailed), s,
             [VerifySlashingAdaptorSigs, VerifyUnbondingSchnorrSig])
       else (case TxOut unbondingMsgTx of
         [] \<Rightarrow> (Panic, s, [VerifySlashingAdaptorSigs, VerifyUnbondingSchnorrSig])
       | unbondingOutput # others \<Rightarrow>
       (case GetUnbondingInfo (vrf e) btcDel params of
         None \<Rightarrow> (Panic, s, [VerifySlashingAdaptorSigs, VerifyUnbondingSchnorrSig])
       | Some unbondingInfo \<Rightarrow>
       (case SlashingPathSpendInfo (vrf e) unbondingInfo of
         None \<Rightarrow> (Panic, s, [VerifySlashingAdaptorSigs, VerifyUnbondingSchnorrSig])
       | Some unbondingSlashingSpendInfo \<Rightarrow>
       (case ParseEncVerifyAdaptorSignatures (vrf e)
               (UnbondingSlashingTx (BtcUndelegation btcDel)) unbondingOutput
               unbondingSlashingSpendInfo (Pk req) (FpBtcPkList btcDel)
               (SlashingUnbondingTxSigs req) of
         None \<Rightarrow> (Error (ErrInvalidCovenantSig SigVerificationFailed), s,
                   [VerifySlashingAdaptorSigs, VerifyUnbondingSchnorrSig,
                    VerifyUnbondingSlashingAdaptorSigs])
       | Some parsedUnbondingSlashingAdaptorSignatures \<Rightarrow>
       (case addCovenantSigsToBTCDelegation e s btcDel (Pk req)
               parsedSlashingAdaptorSignatures (UnbondingTxSig req)
               parsedUnbondingSlashingAdaptorSignatures of
         None \<Rightarrow> (Panic, s,
                   [VerifySlashingAdaptorSigs, VerifyUnbondingSchnorrSig,
                    VerifyUnbondingSlashingAdaptorSigs])
       | Some s1 \<Rightarrow>
           (Ok (), IndexRefundableMsg s1 (RefundCovenantSigs req),
            [VerifySlashingAdaptorSigs, VerifyUnbondingSchnorrSig,
             VerifyUnbondingSlashingAdaptorSigs]))))))))))"

text \<open>
  The first half, from the first count check to the verification of the adaptor
  signatures over the staking-slashing transaction.
\<close>

definition covenantSigsSlashingPart ::
  "env \<Rightarrow> MsgAddCovenantSigs \<Rightarrow> keeper_state \<Rightarrow> BTCDelegation \<Rightarrow> Params
     \<Rightarrow> unit result \<times> keeper_state \<times> crypto_call list" where
  "covenantSigsSlashingPart e req s btcDel params =
     (if length (SlashingTxSigs req) \<noteq> length (FpBtcPkList btcDel)
      then (Error (ErrInvalidCovenantSig
                     (SigCountMismatch (length (SlashingTxSigs req))
                                       (length (FpBtcPkList btcDel)))),
            s, [])
      else (case GetStakingInfo (vrf e) btcDel params of
         None \<Rightarrow> (Panic, s, [])
       | Some stakingInfo \<Rightarrow>
       (case SlashingPathSpendInfo (vrf e) stakingInfo of
         None \<Rightarrow> (Panic, s, [])
       | Some slashingSpendInfo \<Rightarrow>
       (case ParseEncVerifyAdaptorSignatures (vrf e) (SlashingTx btcDel)
               (StakingOutput stakingInfo) slashingSpendInfo (Pk req) (FpBtcPkList btcDel)
               (SlashingTxSigs req) of
         None \<Rightarrow> (Error (ErrInvalidCovenantSig SigVerificationFailed), s,
                   [VerifySlashingAdaptorSigs])
       | Some parsedSlashingAdaptorSignatures \<Rightarrow>
           covenantSigsUnbondingPart e req s btcDel params stakingInfo
             parsedSlashingAdaptorSignatures))))"

definition AddCovenantSigs ::
  "env \<Rightarrow> MsgAddCovenantSigs \<Rightarrow> keeper_state \<Rightarrow> unit result \<times> keeper_state \<times> crypto_call list" where
  "AddCovenantSigs e req s =
     (if \<not> CovSigsValidateBasic (cdc e) req then (Error InvalidArgument, s, [])
      else (case getBTCDelWithParams s (CovStakingTxHash req) of
         Error er \<Rightarrow> (Error er, s, [])
       | Panic \<Rightarrow> (Panic, s, [])
       | Ok (btcDel, params) \<Rightarrow>
          if \<not> HasCovenantPK params (Pk req) then (Error ErrInvalidCovenantPK, s, [])
          else if IsSignedByCovMember btcDel (Pk req)
                  \<and> UndelIsSignedByCovMember (BtcUndelegation btcDel) (Pk req)
          then (Error ErrDuplicatedCovenantSig, s, [])
          else (let btcTipHeight = btcTipHeight e;
                    wValue = CheckpointFinalizationTimeout e;
                    status = GetStatus btcDel btcTipHeight wValue (CovenantQuorum params)
                in if status = UNBONDED
                   then (Error (ErrInvalidCovenantSig DelegationAlreadyUnbonded), s, [])
                   else covenantSigsSlashingPart e req s btcDel params)))"

subsection \<open>BTCUndelegate\<close>

definition BTCUndelegate ::
  "env \<Rightarrow> MsgBTCUndelegate \<Rightarrow> keeper_state \<Rightarrow> unit result \<times> keeper_state" where
  "BTCUndelegate e req s =
     (if \<not> UndelegateValidateBasic (cdc e) req then (Error InvalidArgument, s)
      else (case getBTCDelWithParams s (UndelStakingTxHash req) of
         Error er \<Rightarrow> (Error er, s)
       | Panic \<Rightarrow> (Panic, s)
       | Ok (btcDel, bsParams) \<Rightarrow>
          (let btcDelStatus = GetStatus btcDel (btcTipHeight e)
                                (CheckpointFinalizationTimeout e) (CovenantQuorum bsParams)
           in if btcDelStatus = PENDING then (Error ErrInvalidBTCUndelegateReq, s)
              else if btcDelStatus = UNBONDED then (Error ErrInvalidBTCUndelegateReq, s)
              else (case NewBTCTxFromBytes (cdc e) (UnbondingTx (BtcUndelegation btcDel)) of
                 Inl er \<Rightarrow> (Panic, s)
               | Inr unbondingMsgTx \<Rightarrow>
               (case GetStakingInfo (vrf e) btcDel bsParams of
                 None \<Rightarrow> (Panic, s)
               | Some stakingInfo \<Rightarrow>
               (case UnbondingPathSpendInfo (vrf e) stakingInfo of
                 None \<Rightarrow> (Panic, s)
               | Some unbondingSpendInfo \<Rightarrow>
               (case ToBTCPK (cdc e) (StakerBtcPk btcDel) of
                 None \<Rightarrow> (Panic, s)
               | Some stakerBTCPK \<Rightarrow>
                  if \<not> VerifyTransactionSigWithOutput (vrf e) unbondingMsgTx
                          (StakingOutput stakingInfo)
                          (GetPkScriptPath (vrf e) unbondingSpendInfo)
                          stakerBTCPK (UndelUnbondingTxSig req)
                  then (Error (ErrInvalidCovenantSig SigVerificationFailed), s)
                  else (case btcUndelegate e s btcDel (UndelUnbondingTxSig req) of
                          None \<Rightarrow> (Panic, s)
                        | Some s1 \<Rightarrow>
                            (Ok (), IndexRefundableMsg s1 (RefundUndelegate req))))))))))"

subsection \<open>SelectiveSlashingEvidence\<close>

definition SelectiveSlashingEvidence ::
  "env \<Rightarrow> MsgSelectiveSlashingEvidence \<Rightarrow> keeper_state \<Rightarrow> unit result \<times> keeper_state" where
  "SelectiveSlashingEvidence e req s =
     (case getBTCDelWithParams s (EvidenceStakingTxHash req) of
        Error er \<Rightarrow> (Error er, s)
      | Panic \<Rightarrow> (Panic, s)
      | Ok (btcDel, bsParams) \<Rightarrow>
         if GetStatus btcDel (btcTipHeight e) (CheckpointFinalizationTimeout e)
              (CovenantQuorum bsParams) \<noteq> ACTIVE
            \<and> \<not> IsUnbondedEarly btcDel
         then (Error ErrBTCDelegationNotFound, s)
         else (let fpBTCPK = snd (PrivKeyFromBytes (cdc e) (RecoveredFpBtcSk req));
                   fpIdx = GetFpIdx btcDel fpBTCPK
               in if fpIdx = - 1 then (Error ErrFpNotFound, s)
                  else (case GetFinalityProvider s fpBTCPK of
                          Inl er \<Rightarrow> (Panic, s)
                        | Inr fp \<Rightarrow>
                           if IsSlashed fp then (Error ErrFpAlreadySlashed, s)
                           else (case SlashFinalityProvider e s fpBTCPK of
                                   Inl er \<Rightarrow> (Panic, s)
                                 | Inr s1 \<Rightarrow>
                                     (Ok (), IndexRefundableMsg s1 (RefundSlashingEvidence req))))))"

section \<open>Properties\<close>

subsection \<open>The height invariant\<close>

text \<open>
  A delegation's heights are consistent when a non-zero start height is followed by an end
  height that lies one staking time later, in the 64-bit arithmetic of the handlers.
\<close>

definition heightsConsistent :: "BTCDelegation \<Rightarrow> bool" where
  "heightsConsistent d =
     (StartHeight d \<noteq> 0 \<longrightarrow> EndHeight d = StartHeight d + ucast (StakingTime d))"

definition storeHeightsConsistent :: "keeper_state \<Rightarrow> bool" where
  "storeHeightsConsistent s = (\<forall>h d. btcDelegations s h = Some d \<longrightarrow> heightsConsistent d)"

subsection \<open>A concrete keeper\<close>

text \<open>
  A small environment and a few states on which the handlers are evaluated: one finality
  provider, one delegation under the staking-transaction hash \<open>''aa''\<close>, bound to
  parameter version 0 while version 1 is in force; proofs of possession and signatures are
  accepted when they are non-empty, and every inclusion proof verifies at height 1000 while
  the BTC tip is at 1010 and the finalization timeout is 10.
\<close>

definition demoParsed :: ParsedCreateDelegationMessage where
  "demoParsed =
     \<lparr>StakerAddress = [1], StakerPK = [9], ParsedPop = [1],
      ParsedStakingTx = \<lparr>Transaction = \<lparr>TxIn = [], TxOut = [[1]]\<rparr>, TransactionBytes = [1]\<rparr>,
      FinalityProviderKeys = [[7]], ParsedStakingTime = 100, StakingValue = 50000,
      StakingSlashingTx = \<lparr>Transaction = \<lparr>TxIn = [], TxOut = [[2]]\<rparr>, TransactionBytes = [2]\<rparr>,
      StakerStakingSlashingTxSig = [3], ParsedUnbondingTime = 10,
      ParsedUnbondingTx = \<lparr>Transaction = \<lparr>TxIn = [], TxOut = [[4]]\<rparr>, TransactionBytes = [4]\<rparr>,
      ParsedUnbondingSlashingTx = \<lparr>Transaction = \<lparr>TxIn = [], TxOut = [[5]]\<rparr>, TransactionBytes = [5]\<rparr>,
      StakerUnbondingSlashingSig = [6], StakingTxProofOfInclusion = None\<rparr>"

definition demoCodec :: codec where
  "demoCodec =
     \<lparr>EditValidateBasic = (\<lambda>req. True),
      CovSigsValidateBasic = (\<lambda>req. True),
      UndelegateValidateBasic = (\<lambda>req. True),
      AccAddressFromBech32 = (\<lambda>a. if a = [] then None else Some [1]),
      AccAddressString = (\<lambda>b. ''bbn1fp''),
      EqualFoldUnicode = (\<lambda>a b. False),
      ParseCreateDelegationMessage =
        (\<lambda>req. case req of
                  [] \<Rightarrow> None
                | pop # rest \<Rightarrow>
                    Some (demoParsed\<lparr>ParsedPop := (if pop = 0 then [] else [pop]),
                                     StakingTxProofOfInclusion :=
                                       (if rest = [] then None else Some rest)\<rparr>)),
      NewBTCTxFromBytes = (\<lambda>b. Inr \<lparr>TxIn = [], TxOut = [b]\<rparr>),
      TxHash = (\<lambda>tx. if TxOut tx = [[1]] then ''aa'' else ''bb''),
      NewParsedProofOfInclusion = (\<lambda>b. Inr b),
      PrivKeyFromBytes = (\<lambda>sk. (sk, sk)),
      ToBTCPK = (\<lambda>pk. Some pk)\<rparr>"

definition demoVerifier :: verifier where
  "demoVerifier =
     \<lparr>PopVerify = (\<lambda>pop addr pk. pop \<noteq> []),
      ValidateParsedMessageAgainstTheParams = (\<lambda>m p. Inr 0),
      VerifyInclusionProofAndGetHeight = (\<lambda>tx t ipf. Inr 1000),
      GetStakingInfo = (\<lambda>d p. Some \<lparr>StakingOutput = []\<rparr>),
      GetUnbondingInfo = (\<lambda>d p. Some \<lparr>StakingOutput = []\<rparr>),
      SlashingPathSpendInfo = (\<lambda>i. Some []),
      UnbondingPathSpendInfo = (\<lambda>i. Some []),
      GetPkScriptPath = (\<lambda>i. i),
      ParseEncVerifyAdaptorSignatures =
        (\<lambda>tx out si pk fps sigs. if [] \<in> set sigs then None else Some sigs),
      VerifyTransactionSigWithOutput = (\<lambda>tx out path pk sg. sg \<noteq> [])\<rparr>"

definition demoEnv :: env where
  "demoEnv = \<lparr>cdc = demoCodec, vrf = demoVerifier, btcTipHeight = 1010,
              CheckpointFinalizationTimeout = 10\<rparr>"

definition demoParams0 :: Params where
  "demoParams0 = \<lparr>CovenantPks = [[1]], CovenantQuorum = 1,
                  MinCommissionRate = 5 * 10 ^ 16, DelegationCreationBaseGasFee = 1000\<rparr>"

definition demoParams1 :: Params where
  "demoParams1 = \<lparr>CovenantPks = [[2]], CovenantQuorum = 1,
                  MinCommissionRate = 5 * 10 ^ 16, DelegationCreationBaseGasFee = 1000\<rparr>"

definition demoFp :: FinalityProvider where
  "demoFp = \<lparr>Addr = ''BBN1FP'', Description = ''old'', Commission = 10 ^ 17, BtcPk = [7],
             Slashed = False, SlashedHeight = 0\<rparr>"

definition demoDel :: BTCDelegation where
  "demoDel =
     \<lparr>StakerAddr = ''bbn1fp'', StakerBtcPk = [9], Pop = [1], FpBtcPkList = [[7]],
      StakingTime = 100, StartHeight = 0, EndHeight = 0, TotalSat = 50000,
      StakingTx = [1], StakingOutputIdx = 0, SlashingTx = [2], DelegatorSig = [3],
      UnbondingTime = 10, CovenantSigs = [],
      BtcUndelegation =
        \<lparr>UnbondingTx = [4], UnbondingSlashingTx = [5], DelegatorSlashingSig = [6],
         DelegatorUnbondingSig = None, CovenantSlashingSigs = [],
         CovenantUnbondingSigList = []\<rparr>,
      ParamsVersion = 0\<rparr>"

definition demoState :: keeper_state where
  "demoState =
     \<lparr>finalityProviders = [[7] \<mapsto> demoFp],
      btcDelegations = [''aa'' \<mapsto> demoDel],
      powerDistUpdateEvents = [],
      currentParams = \<lparr>Version = 1, StoredParamsOf = demoParams1\<rparr>,
      paramsByVersion = [0 \<mapsto> demoParams0, 1 \<mapsto> demoParams1],
      gasConsumed = 0,
      refundableMsgs = []\<rparr>"

definition demoEditReq :: MsgEditFinalityProvider where
  "demoEditReq = \<lparr>EditAddr = ''bbn1fp'', EditDescription = ''new'',
                  EditCommission = 2 * 10 ^ 17, EditBtcPk = [7]\<rparr>"

definition signedDel :: BTCDelegation where
  "signedDel =
     demoDel\<lparr>CovenantSigs := [([1], [[1]])],
             BtcUndelegation := (BtcUndelegation demoDel)
               \<lparr>CovenantSlashingSigs := [([1], [[1]])],
                CovenantUnbondingSigList := [([1], [1])]\<rparr>\<rparr>"

definition activeDel :: BTCDelegation where
  "activeDel = signedDel\<lparr>StartHeight := 1000, EndHeight := 1100\<rparr>"

definition signedState :: keeper_state where
  "signedState = demoState\<lparr>btcDelegations := [''aa'' \<mapsto> signedDel]\<rparr>"

definition activeState :: keeper_state where
  "activeState = demoState\<lparr>btcDelegations := [''aa'' \<mapsto> activeDel]\<rparr>"

definition emptyState :: keeper_state where
  "emptyState = demoState\<lparr>btcDelegations := Map.empty\<rparr>"

definition demoProofReq :: MsgAddBTCDelegationInclusionProof where
  "demoProofReq = \<lparr>ProofStakingTxHash = ''aa'', StakingTxInclusionProof = [1]\<rparr>"

definition unbondedDel :: BTCDelegation where
  "unbondedDel =
     activeDel\<lparr>BtcUndelegation := (BtcUndelegation activeDel)\<lparr>DelegatorUnbondingSig := Some [1]\<rparr>\<rparr>"

definition unbondedState :: keeper_state where
  "unbondedState = demoState\<lparr>btcDelegations := [''aa'' \<mapsto> unbondedDel]\<rparr>"

definition orphanState :: keeper_state where
  "orphanState = activeState\<lparr>finalityProviders := Map.empty\<rparr>"

definition slashedState :: keeper_state where
  "slashedState = activeState\<lparr>finalityProviders := [[7] \<mapsto> demoFp\<lparr>Slashed := True\<rparr>]\<rparr>"

definition demoCovReq :: MsgAddCovenantSigs where
  "demoCovReq = \<lparr>Pk = [1], CovStakingTxHash = ''aa'', SlashingTxSigs = [[1]],
                 UnbondingTxSig = [1], SlashingUnbondingTxSigs = [[1]]\<rparr>"

definition shortCovReq :: MsgAddCovenantSigs where
  "shortCovReq = demoCovReq\<lparr>SlashingUnbondingTxSigs := []\<rparr>"

definition emptyCovReq :: MsgAddCovenantSigs where
  "emptyCovReq = demoCovReq\<lparr>SlashingTxSigs := []\<rparr>"

definition strangerCovReq :: MsgAddCovenantSigs where
  "strangerCovReq = demoCovReq\<lparr>Pk := [2]\<rparr>"

definition demoUndelReq :: MsgBTCUndelegate where
  "demoUndelReq = \<lparr>UndelStakingTxHash = ''aa'', UndelUnbondingTxSig = [1]\<rparr>"

definition demoEvidence :: MsgSelectiveSlashingEvidence where
  "demoEvidence = \<lparr>EvidenceStakingTxHash = ''aa'', RecoveredFpBtcSk = [7]\<rparr>"

definition foreignEvidence :: MsgSelectiveSlashingEvidence where
  "foreignEvidence = \<lparr>EvidenceStakingTxHash = ''aa'', RecoveredFpBtcSk = [8]\<rparr>"

definition pendingOrphanState :: keeper_state where
  "pendingOrphanState = demoState\<lparr>finalityProviders := Map.empty\<rparr>"

section \<open>Proofs\<close>

subsection \<open>What the handlers do, case by case\<close>

lemma ucast_16_32_64: "(ucast (ucast (x :: 16 word) :: 32 word) :: 64 word) = ucast x"
  by (rule bit_word_eqI) (auto simp: bit_simps dest: bit_imp_le_length)

lemma AddBTCDelegation_Some:
  assumes "AddBTCDelegation e s d = Some s'"
  shows "\<exists>h. btcDelegations s h = None \<and> s' = s\<lparr>btcDelegations := (btcDelegations s)(h \<mapsto> d)\<rparr>"
  using assms by (auto simp: AddBTCDelegation_def split: option.splits)

lemma storeHeightsConsistent_upd:
  assumes "storeHeightsConsistent s" and "heightsConsistent d"
    and "btcDelegations s' = (btcDelegations s)(h \<mapsto> d)"
  shows "storeHeightsConsistent s'"
  using assms by (auto simp: storeHeightsConsistent_def)

lemma createVerified_Ok:
  assumes "createVerified e s m vp i = (Ok (), s')"
  shows "\<exists>h d. btcDelegations s h = None
           \<and> btcDelegations s' = (btcDelegations s)(h \<mapsto> d)
           \<and> StakingTime d = ucast (ParsedStakingTime m)
           \<and> (case StakingTxProofOfInclusion m of
                 None \<Rightarrow> StartHeight d = 0 \<and> EndHeight d = 0
               | Some ipf \<Rightarrow>
                   VerifyInclusionProofAndGetHeight (vrf e) (Transaction (ParsedStakingTx m))
                     (ucast (ParsedStakingTime m)) ipf = Inr (StartHeight d)
                   \<and> EndHeight d = StartHeight d + ucast (StakingTime d))"
proof (cases "StakingTxProofOfInclusion m")
  case None
  with assms obtain h where
    "btcDelegations s h = None"
    "btcDelegations s' = (btcDelegations s)(h \<mapsto> newBTCDel e m 0 0 i (Version vp))"
    by (auto simp: createVerified_def ConsumeGas_def split: option.splits
             dest!: AddBTCDelegation_Some)
  with None show ?thesis
    by (intro exI[of _ h] exI[of _ "newBTCDel e m 0 0 i (Version vp)"])
       (simp add: newBTCDel_def)
next
  case (Some ipf)
  with assms obtain ht where ht:
    "VerifyInclusionProofAndGetHeight (vrf e) (Transaction (ParsedStakingTx m))
       (ucast (ParsedStakingTime m)) ipf = Inr ht"
    by (auto simp: createVerified_def split: sum.splits)
  let ?d = "newBTCDel e m ht (ht + ucast (ParsedStakingTime m)) i (Version vp)"
  from assms Some ht obtain h where
    "btcDelegations s h = None" "btcDelegations s' = (btcDelegations s)(h \<mapsto> ?d)"
    by (auto simp: createVerified_def Let_def split: option.splits
             dest!: AddBTCDelegation_Some)
  with Some ht show ?thesis
    by (intro exI[of _ h] exI[of _ ?d]) (simp add: newBTCDel_def ucast_16_32_64)
qed

lemma createVerified_failed:
  assumes "createVerified e s m vp i = (r, s')" and "r \<noteq> Ok ()"
  shows "s' = s"
  using assms
  by (auto simp: createVerified_def Let_def split: option.splits sum.splits)

lemma CreateBTCDelegation_cases:
  "(\<exists>m vp i. ParseCreateDelegationMessage (cdc e) req = Some m
        \<and> CreateBTCDelegation e req s = createVerified e s m vp i)
   \<or> (\<exists>er. CreateBTCDelegation e req s = (Error er, s))"
  by (auto simp: CreateBTCDelegation_def Let_def split: option.splits sum.splits)

lemma recordInclusion_result:
  "recordInclusion e req s d ht = (Panic, s)
   \<or> (\<exists>h. GetStakingTxHash e
              (d\<lparr>StartHeight := ht, EndHeight := ht + ucast (StakingTime d)\<rparr>) = Some h
         \<and> recordInclusion e req s d ht =
             (Ok (),
              s\<lparr>btcDelegations := (btcDelegations s)
                    (h \<mapsto> d\<lparr>StartHeight := ht, EndHeight := ht + ucast (StakingTime d)\<rparr>),
                powerDistUpdateEvents := powerDistUpdateEvents s @
                    [(btcTipHeight e,
                      BtcDelStateUpdate \<lparr>EventStakingTxHash = h, NewState = ACTIVE\<rparr>),
                     (ht + ucast (StakingTime d) - CheckpointFinalizationTimeout e,
                      BtcDelStateUpdate
                        \<lparr>EventStakingTxHash = ProofStakingTxHash req, NewState = UNBONDED\<rparr>)],
                refundableMsgs := refundableMsgs s @ [RefundInclusionProof req]\<rparr>))"
  by (cases "GetStakingTxHash e
              (d\<lparr>StartHeight := ht, EndHeight := ht + ucast (StakingTime d)\<rparr>)")
     (simp_all add: recordInclusion_def setBTCDelegation_def Let_def
        addPowerDistUpdateEvent_def IndexRefundableMsg_def
        NewEventPowerDistUpdateWithBTCDel_def)

lemma AddBTCDelegationInclusionProof_cases:
  "(\<exists>er. AddBTCDelegationInclusionProof e req s = (Error er, s))
   \<or> AddBTCDelegationInclusionProof e req s = (Panic, s)
   \<or> (\<exists>d params ipf tx ht.
         btcDelegations s (ProofStakingTxHash req) = Some d
       \<and> paramsByVersion s (ParamsVersion d) = Some params
       \<and> \<not> HasInclusionProof d
       \<and> HasCovenantQuorums d (CovenantQuorum params)
       \<and> DelegatorUnbondingSig (BtcUndelegation d) = None
       \<and> NewParsedProofOfInclusion (cdc e) (StakingTxInclusionProof req) = Inr ipf
       \<and> NewBTCTxFromBytes (cdc e) (StakingTx d) = Inr tx
       \<and> VerifyInclusionProofAndGetHeight (vrf e) tx (ucast (StakingTime d)) ipf = Inr ht
       \<and> AddBTCDelegationInclusionProof e req s = recordInclusion e req s d ht)"
  by (auto simp: AddBTCDelegationInclusionProof_def getBTCDelWithParams_def
        GetBTCDelegation_def GetParamsByVersion_def
      split: option.splits sum.splits result.splits)

lemma AddBTCDelegationInclusionProof_Ok:
  assumes "AddBTCDelegationInclusionProof e req s = (Ok (), s')"
  shows "\<exists>d params ipf tx ht.
         btcDelegations s (ProofStakingTxHash req) = Some d
       \<and> paramsByVersion s (ParamsVersion d) = Some params
       \<and> \<not> HasInclusionProof d
       \<and> HasCovenantQuorums d (CovenantQuorum params)
       \<and> DelegatorUnbondingSig (BtcUndelegation d) = None
       \<and> NewParsedProofOfInclusion (cdc e) (StakingTxInclusionProof req) = Inr ipf
       \<and> NewBTCTxFromBytes (cdc e) (StakingTx d) = Inr tx
       \<and> VerifyInclusionProofAndGetHeight (vrf e) tx (ucast (StakingTime d)) ipf = Inr ht
       \<and> s' = s\<lparr>btcDelegations := (btcDelegations s)
                    (TxHash (cdc e) tx \<mapsto>
                       d\<lparr>StartHeight := ht, EndHeight := ht + ucast (StakingTime d)\<rparr>),
                powerDistUpdateEvents := powerDistUpdateEvents s @
                    [(btcTipHeight e,
                      BtcDelStateUpdate
                        \<lparr>EventStakingTxHash = TxHash (cdc e) tx, NewState = ACTIVE\<rparr>),
                     (ht + ucast (StakingTime d) - CheckpointFinalizationTimeout e,
                      BtcDelStateUpdate
                        \<lparr>EventStakingTxHash = ProofStakingTxHash req, NewState = UNBONDED\<rparr>)],
                refundableMsgs := refundableMsgs s @ [RefundInclusionProof req]\<rparr>"
proof -
  from assms AddBTCDelegationInclusionProof_cases[of e req s]
  obtain d params ipf tx ht where f:
    "btcDelegations s (ProofStakingTxHash req) = Some d"
    "paramsByVersion s (ParamsVersion d) = Some params"
    "\<not> HasInclusionProof d"
    "HasCovenantQuorums d (CovenantQuorum params)"
    "DelegatorUnbondingSig (BtcUndelegation d) = None"
    "NewParsedProofOfInclusion (cdc e) (StakingTxInclusionProof req) = Inr ipf"
    "NewBTCTxFromBytes (cdc e) (StakingTx d) = Inr tx"
    "VerifyInclusionProofAndGetHeight (vrf e) tx (ucast (StakingTime d)) ipf = Inr ht"
    "recordInclusion e req s d ht = (Ok (), s')"
    by auto
  have h: "GetStakingTxHash e
             (d\<lparr>StartHeight := ht, EndHeight := ht + ucast (StakingTime d)\<rparr>)
           = Some (TxHash (cdc e) tx)"
    using f(7) by (simp add: GetStakingTxHash_def)
  from recordInclusion_result[of e req s d ht] f(9) h
  have "s' = s\<lparr>btcDelegations := (btcDelegations s)
                    (TxHash (cdc e) tx \<mapsto>
                       d\<lparr>StartHeight := ht, EndHeight := ht + ucast (StakingTime d)\<rparr>),
                powerDistUpdateEvents := powerDistUpdateEvents s @
                    [(btcTipHeight e,
                      BtcDelStateUpdate
                        \<lparr>EventStakingTxHash = TxHash (cdc e) tx, NewState = ACTIVE\<rparr>),
                     (ht + ucast (StakingTime d) - CheckpointFinalizationTimeout e,
                      BtcDelStateUpdate
                        \<lparr>EventStakingTxHash = ProofStakingTxHash req, NewState = UNBONDED\<rparr>)],
                refundableMsgs := refundableMsgs s @ [RefundInclusionProof req]\<rparr>"
    by auto
  with f show ?thesis by blast
qed

lemma CreateBTCDelegation_preserves:
  assumes "storeHeightsConsistent s"
  shows "storeHeightsConsistent (snd (CreateBTCDelegation e req s))"
proof -
  from CreateBTCDelegation_cases[of e req s]
  consider (run) m vp i where "CreateBTCDelegation e req s = createVerified e s m vp i"
    | (rej) er where "CreateBTCDelegation e req s = (Error er, s)"
    by blast
  then show ?thesis
  proof cases
    case run
    obtain r s' where rs: "createVerified e s m vp i = (r, s')" by (cases "createVerified e s m vp i")
    show ?thesis
    proof (cases "r = Ok ()")
      case True
      with rs createVerified_Ok[of e s m vp i s'] obtain h d where hd:
        "btcDelegations s' = (btcDelegations s)(h \<mapsto> d)"
        "StakingTime d = ucast (ParsedStakingTime m)"
        "case StakingTxProofOfInclusion m of
           None \<Rightarrow> StartHeight d = 0 \<and> EndHeight d = 0
         | Some ipf \<Rightarrow>
             VerifyInclusionProofAndGetHeight (vrf e) (Transaction (ParsedStakingTx m))
               (ucast (ParsedStakingTime m)) ipf = Inr (StartHeight d)
             \<and> EndHeight d = StartHeight d + ucast (StakingTime d)"
        by blast
      from hd(3) have "heightsConsistent d"
        by (auto simp: heightsConsistent_def split: option.splits)
      with assms hd(1) have "storeHeightsConsistent s'"
        by (blast intro: storeHeightsConsistent_upd)
      with run rs show ?thesis by simp
    next
      case False
      with rs have "s' = s" by (rule createVerified_failed)
      with run rs assms show ?thesis by simp
    qed
  next
    case rej
    with assms show ?thesis by simp
  qed
qed

lemma recordInclusion_failed:
  assumes "recordInclusion e req s d ht = (r, s')" and "r \<noteq> Ok ()"
  shows "s' = s"
  using assms recordInclusion_result[of e req s d ht] by auto

lemma AddBTCDelegationInclusionProof_failed:
  assumes "AddBTCDelegationInclusionProof e req s = (r, s')" and "r \<noteq> Ok ()"
  shows "s' = s"
  using assms AddBTCDelegationInclusionProof_cases[of e req s]
  by (auto dest: recordInclusion_failed[OF sym])

lemma AddBTCDelegationInclusionProof_preserves:
  assumes "storeHeightsConsistent s"
  shows "storeHeightsConsistent (snd (AddBTCDelegationInclusionProof e req s))"
proof -
  obtain r s' where rs: "AddBTCDelegationInclusionProof e req s = (r, s')"
    by (cases "AddBTCDelegationInclusionProof e req s")
  show ?thesis
  proof (cases "r = Ok ()")
    case True
    with rs AddBTCDelegationInclusionProof_Ok[of e req s s']
    obtain d tx ht where
      "btcDelegations s' = (btcDelegations s)
          (TxHash (cdc e) tx \<mapsto> d\<lparr>StartHeight := ht, EndHeight := ht + ucast (StakingTime d)\<rparr>)"
      by auto
    moreover have "heightsConsistent
                     (d\<lparr>StartHeight := ht, EndHeight := ht + ucast (StakingTime d)\<rparr>)"
      by (simp add: heightsConsistent_def)
    ultimately have "storeHeightsConsistent s'"
      using assms storeHeightsConsistent_upd by blast
    with rs show ?thesis by simp
  next
    case False
    with rs have "s' = s" by (rule AddBTCDelegationInclusionProof_failed)
    with rs assms show ?thesis by simp
  qed
qed

lemma CreateBTCDelegation_Ok:
  assumes "CreateBTCDelegation e req s = (Ok (), s')"
  shows "\<exists>m h d. ParseCreateDelegationMessage (cdc e) req = Some m
           \<and> btcDelegations s h = None
           \<and> btcDelegations s' = (btcDelegations s)(h \<mapsto> d)
           \<and> StakingTime d = ucast (ParsedStakingTime m)
           \<and> (case StakingTxProofOfInclusion m of
                 None \<Rightarrow> StartHeight d = 0 \<and> EndHeight d = 0
               | Some ipf \<Rightarrow>
                   VerifyInclusionProofAndGetHeight (vrf e) (Transaction (ParsedStakingTx m))
                     (ucast (ParsedStakingTime m)) ipf = Inr (StartHeight d)
                   \<and> EndHeight d = StartHeight d + ucast (StakingTime d))"
proof -
  from assms CreateBTCDelegation_cases[of e req s]
  obtain m vp i where m: "ParseCreateDelegationMessage (cdc e) req = Some m"
    and "createVerified e s m vp i = (Ok (), s')"
    by auto
  from createVerified_Ok[OF this(2)] m show ?thesis by blast
qed

lemma indexOf_eq_minus1: "indexOf xs x = - 1 \<longleftrightarrow> x \<notin> set xs"
proof (induction xs)
  case Nil
  then show ?case by simp
next
  case (Cons y ys)
  have "0 \<le> indexOf ys x \<or> indexOf ys x = - 1"
    by (induction ys) (auto simp: Let_def)
  with Cons show ?case by (auto simp: Let_def)
qed

lemma covenantSigsUnbondingPart_mismatch:
  assumes "length (SlashingUnbondingTxSigs req) \<noteq> length (FpBtcPkList btcDel)"
  shows "covenantSigsUnbondingPart e req s btcDel params si parsed =
           (Error (ErrInvalidCovenantSig
                     (SigCountMismatch (length (SlashingUnbondingTxSigs req))
                                       (length (FpBtcPkList btcDel)))),
            s, [VerifySlashingAdaptorSigs])"
  using assms by (simp add: covenantSigsUnbondingPart_def)

lemma covenantSigsSlashingPart_second_mismatch:
  assumes "length (SlashingTxSigs req) = length (FpBtcPkList btcDel)"
    and "length (SlashingUnbondingTxSigs req) \<noteq> length (FpBtcPkList btcDel)"
  shows "covenantSigsSlashingPart e req s btcDel params = (Panic, s, [])
       \<or> covenantSigsSlashingPart e req s btcDel params =
            (Error (ErrInvalidCovenantSig SigVerificationFailed), s, [VerifySlashingAdaptorSigs])
       \<or> (\<exists>si sp parsed.
              GetStakingInfo (vrf e) btcDel params = Some si
            \<and> SlashingPathSpendInfo (vrf e) si = Some sp
            \<and> ParseEncVerifyAdaptorSignatures (vrf e) (SlashingTx btcDel) (StakingOutput si) sp
                 (Pk req) (FpBtcPkList btcDel) (SlashingTxSigs req) = Some parsed
            \<and> covenantSigsSlashingPart e req s btcDel params =
                 (Error (ErrInvalidCovenantSig
                     (SigCountMismatch (length (SlashingUnbondingTxSigs req))
                                       (length (FpBtcPkList btcDel)))),
                  s, [VerifySlashingAdaptorSigs]))"
  using assms
  by (auto simp: covenantSigsSlashingPart_def covenantSigsUnbondingPart_mismatch
           split: option.splits)

lemma AddCovenantSigs_reaches_counts:
  assumes "CovSigsValidateBasic (cdc e) req"
    and "btcDelegations s (CovStakingTxHash req) = Some btcDel"
    and "paramsByVersion s (ParamsVersion btcDel) = Some params"
    and "HasCovenantPK params (Pk req)"
    and "\<not> (IsSignedByCovMember btcDel (Pk req)
            \<and> UndelIsSignedByCovMember (BtcUndelegation btcDel) (Pk req))"
    and "GetStatus btcDel (btcTipHeight e) (CheckpointFinalizationTimeout e)
           (CovenantQuorum params) \<noteq> UNBONDED"
  shows "AddCovenantSigs e req s = covenantSigsSlashingPart e req s btcDel params"
  using assms by (auto simp: AddCovenantSigs_def getBTCDelWithParams_def GetBTCDelegation_def
      GetParamsByVersion_def Let_def)

lemma BTCUndelegate_after_lookup:
  assumes "UndelegateValidateBasic (cdc e) req"
    and "btcDelegations s (UndelStakingTxHash req) = Some btcDel"
    and "paramsByVersion s (ParamsVersion btcDel) = Some params"
    and "GetStatus btcDel (btcTipHeight e) (CheckpointFinalizationTimeout e)
           (CovenantQuorum params) = PENDING
         \<or> GetStatus btcDel (btcTipHeight e) (CheckpointFinalizationTimeout e)
           (CovenantQuorum params) = UNBONDED"
  shows "BTCUndelegate e req s = (Error ErrInvalidBTCUndelegateReq, s)"
  using assms
  by (auto simp: BTCUndelegate_def getBTCDelWithParams_def GetBTCDelegation_def
        GetParamsByVersion_def Let_def)

lemma SelectiveSlashingEvidence_after_lookup:
  assumes "btcDelegations s (EvidenceStakingTxHash req) = Some btcDel"
    and "paramsByVersion s (ParamsVersion btcDel) = Some params"
  shows "SelectiveSlashingEvidence e req s =
     (if GetStatus btcDel (btcTipHeight e) (CheckpointFinalizationTimeout e)
              (CovenantQuorum params) \<noteq> ACTIVE
            \<and> \<not> IsUnbondedEarly btcDel
         then (Error ErrBTCDelegationNotFound, s)
         else if snd (PrivKeyFromBytes (cdc e) (RecoveredFpBtcSk req)) \<notin> set (FpBtcPkList btcDel)
              then (Error ErrFpNotFound, s)
              else (case finalityProviders s (snd (PrivKeyFromBytes (cdc e) (RecoveredFpBtcSk req))) of
                      None \<Rightarrow> (Panic, s)
                    | Some fp \<Rightarrow>
                        if IsSlashed fp then (Error ErrFpAlreadySlashed, s)
                        else (Ok (), IndexRefundableMsg
                                (setFinalityProvider s
                                   (fp\<lparr>Slashed := True, SlashedHeight := btcTipHeight e\<rparr>))
                                (RefundSlashingEvidence req))))"
  using assms
  by (auto simp: SelectiveSlashingEvidence_def getBTCDelWithParams_def GetBTCDelegation_def
        GetParamsByVersion_def Let_def GetFpIdx_def indexOf_eq_minus1 GetFinalityProvider_def
        SlashFinalityProvider_def
      split: option.splits)

subsection \<open>The claims\<close>

text \<open>
  C1. Whenever a stored delegation has a non-zero start height, its end height is the
  start height plus its staking time (in 64-bit arithmetic). CreateBTCDelegation and
  AddBTCDelegationInclusionProof both keep this true of every stored delegation. A
  delegation created without an inline proof has both heights zero; one created with an
  inline proof, and one given its proof later, has the verified height as start height
  and that height plus the staking time as end height.
\<close>

theorem heights_follow_inclusion:
  assumes "storeHeightsConsistent s"
  shows "storeHeightsConsistent (snd (CreateBTCDelegation e creq s))
       \<and> storeHeightsConsistent (snd (AddBTCDelegationInclusionProof e preq s))
       \<and> (\<forall>s'. CreateBTCDelegation e creq s = (Ok (), s') \<longrightarrow>
            (\<exists>m h d. ParseCreateDelegationMessage (cdc e) creq = Some m
               \<and> btcDelegations s h = None
               \<and> btcDelegations s' = (btcDelegations s)(h \<mapsto> d)
               \<and> StakingTime d = ucast (ParsedStakingTime m)
               \<and> (case StakingTxProofOfInclusion m of
                     None \<Rightarrow> StartHeight d = 0 \<and> EndHeight d = 0
                   | Some ipf \<Rightarrow>
                       VerifyInclusionProofAndGetHeight (vrf e)
                         (Transaction (ParsedStakingTx m))
                         (ucast (ParsedStakingTime m)) ipf = Inr (StartHeight d)
                       \<and> EndHeight d = StartHeight d + ucast (StakingTime d))))
       \<and> (\<forall>s'. AddBTCDelegationInclusionProof e preq s = (Ok (), s') \<longrightarrow>
            (\<exists>d tx ipf ht.
                 btcDelegations s (ProofStakingTxHash preq) = Some d
               \<and> \<not> HasInclusionProof d
               \<and> NewBTCTxFromBytes (cdc e) (StakingTx d) = Inr tx
               \<and> VerifyInclusionProofAndGetHeight (vrf e) tx (ucast (StakingTime d)) ipf
                   = Inr ht
               \<and> btcDelegations s' = (btcDelegations s)
                    (TxHash (cdc e) tx \<mapsto>
                       d\<lparr>StartHeight := ht, EndHeight := ht + ucast (StakingTime d)\<rparr>)))"
proof (intro conjI allI impI)
  show "storeHeightsConsistent (snd (CreateBTCDelegation e creq s))"
    using assms by (rule CreateBTCDelegation_preserves)
next
  show "storeHeightsConsistent (snd (AddBTCDelegationInclusionProof e preq s))"
    using assms by (rule AddBTCDelegationInclusionProof_preserves)
next
  fix s' assume "CreateBTCDelegation e creq s = (Ok (), s')"
  then show "\<exists>m h d. ParseCreateDelegationMessage (cdc e) creq = Some m
               \<and> btcDelegations s h = None
               \<and> btcDelegations s' = (btcDelegations s)(h \<mapsto> d)
               \<and> StakingTime d = ucast (ParsedStakingTime m)
               \<and> (case StakingTxProofOfInclusion m of
                     None \<Rightarrow> StartHeight d = 0 \<and> EndHeight d = 0
                   | Some ipf \<Rightarrow>
                       VerifyInclusionProofAndGetHeight (vrf e)
                         (Transaction (ParsedStakingTx m))
                         (ucast (ParsedStakingTime m)) ipf = Inr (StartHeight d)
                       \<and> EndHeight d = StartHeight d + ucast (StakingTime d))"
    by (rule CreateBTCDelegation_Ok)
next
  fix s' assume "AddBTCDelegationInclusionProof e preq s = (Ok (), s')"
  from AddBTCDelegationInclusionProof_Ok[OF this]
  show "\<exists>d tx ipf ht.
                 btcDelegations s (ProofStakingTxHash preq) = Some d
               \<and> \<not> HasInclusionProof d
               \<and> NewBTCTxFromBytes (cdc e) (StakingTx d) = Inr tx
               \<and> VerifyInclusionProofAndGetHeight (vrf e) tx (ucast (StakingTime d)) ipf
                   = Inr ht
               \<and> btcDelegations s' = (btcDelegations s)
                    (TxHash (cdc e) tx \<mapsto>
                       d\<lparr>StartHeight := ht, EndHeight := ht + ucast (StakingTime d)\<rparr>)"
    by (elim exE conjE, intro exI conjI) (assumption, assumption, assumption, assumption, simp)
qed

theorem heights_follow_inclusion_witness:
  "storeHeightsConsistent emptyState
   \<and> fst (CreateBTCDelegation demoEnv [1, 1] emptyState) = Ok ()
   \<and> storeHeightsConsistent (snd (CreateBTCDelegation demoEnv [1, 1] emptyState))
   \<and> storeHeightsConsistent signedState
   \<and> fst (AddBTCDelegationInclusionProof demoEnv demoProofReq signedState) = Ok ()
   \<and> storeHeightsConsistent (snd (AddBTCDelegationInclusionProof demoEnv demoProofReq signedState))"
proof -
  have a: "storeHeightsConsistent emptyState"
    by (simp add: storeHeightsConsistent_def demoParsed_def demoCodec_def
          demoVerifier_def demoEnv_def demoParams0_def demoParams1_def demoFp_def
          demoDel_def demoState_def signedDel_def signedState_def emptyState_def
          demoProofReq_def)
  have b: "storeHeightsConsistent signedState"
    by (simp add: storeHeightsConsistent_def heightsConsistent_def demoParsed_def
          demoCodec_def demoVerifier_def demoEnv_def demoParams0_def demoParams1_def
          demoFp_def demoDel_def demoState_def signedDel_def signedState_def
          emptyState_def demoProofReq_def newBTCDel_def)
  have c: "fst (CreateBTCDelegation demoEnv [1, 1] emptyState) = Ok ()"
    by (simp add: CreateBTCDelegation_def createVerified_def newBTCDel_def
          AddBTCDelegation_def GetStakingTxHash_def getBTCDelegation_def
          GetParamsWithVersion_def GetFinalityProvider_def IsSlashed_def ConsumeGas_def
          Let_def AddBTCDelegationInclusionProof_def recordInclusion_def
          addPowerDistUpdateEvent_def NewEventPowerDistUpdateWithBTCDel_def
          getBTCDelWithParams_def GetBTCDelegation_def GetParamsByVersion_def
          setBTCDelegation_def IndexRefundableMsg_def GetStatus_def
          HasInclusionProof_def HasCovenantQuorums_def demoParsed_def demoCodec_def
          demoVerifier_def demoEnv_def demoParams0_def demoParams1_def demoFp_def
          demoDel_def demoState_def signedDel_def signedState_def emptyState_def
          demoProofReq_def)
  have d: "fst (AddBTCDelegationInclusionProof demoEnv demoProofReq signedState) = Ok ()"
    by (simp add: CreateBTCDelegation_def createVerified_def newBTCDel_def
          AddBTCDelegation_def GetStakingTxHash_def getBTCDelegation_def
          GetParamsWithVersion_def GetFinalityProvider_def IsSlashed_def ConsumeGas_def
          Let_def AddBTCDelegationInclusionProof_def recordInclusion_def
          addPowerDistUpdateEvent_def NewEventPowerDistUpdateWithBTCDel_def
          getBTCDelWithParams_def GetBTCDelegation_def GetParamsByVersion_def
          setBTCDelegation_def IndexRefundableMsg_def GetStatus_def
          HasInclusionProof_def HasCovenantQuorums_def demoParsed_def demoCodec_def
          demoVerifier_def demoEnv_def demoParams0_def demoParams1_def demoFp_def
          demoDel_def demoState_def signedDel_def signedState_def emptyState_def
          demoProofReq_def)
  from heights_follow_inclusion[OF a, of demoEnv "[1, 1]" demoProofReq]
       heights_follow_inclusion[OF b, of demoEnv "[1, 1]" demoProofReq]
  show ?thesis using a b c d by blast
qed

text \<open>
  C2, as amended. A successful AddBTCDelegationInclusionProof appends exactly two events to
  the power-distribution log: an ACTIVE event at the current BTC tip height, carrying the
  hash of the delegation's own staking transaction, and an UNBONDED event at the end
  height minus the checkpoint finalization timeout (64-bit subtraction), the end height
  being the verified inclusion height plus the staking time. The inclusion height is the
  one the checker returns for the stored delegation's staking transaction, its staking
  time and the proof submitted in the request.
\<close>

theorem inclusion_proof_events:
  assumes "AddBTCDelegationInclusionProof e req s = (Ok (), s')"
  shows "\<exists>btcDel tx ipf inclusionHeight.
           btcDelegations s (ProofStakingTxHash req) = Some btcDel
         \<and> NewParsedProofOfInclusion (cdc e) (StakingTxInclusionProof req) = Inr ipf
         \<and> NewBTCTxFromBytes (cdc e) (StakingTx btcDel) = Inr tx
         \<and> VerifyInclusionProofAndGetHeight (vrf e) tx (ucast (StakingTime btcDel)) ipf
             = Inr inclusionHeight
         \<and> powerDistUpdateEvents s' = powerDistUpdateEvents s @
             [(btcTipHeight e,
               BtcDelStateUpdate
                 \<lparr>EventStakingTxHash = TxHash (cdc e) tx, NewState = ACTIVE\<rparr>),
              (inclusionHeight + ucast (StakingTime btcDel) - CheckpointFinalizationTimeout e,
               BtcDelStateUpdate
                 \<lparr>EventStakingTxHash = ProofStakingTxHash req, NewState = UNBONDED\<rparr>)]"
proof -
  from AddBTCDelegationInclusionProof_Ok[OF assms]
  obtain d tx ipf ht where
    "btcDelegations s (ProofStakingTxHash req) = Some d"
    "NewParsedProofOfInclusion (cdc e) (StakingTxInclusionProof req) = Inr ipf"
    "NewBTCTxFromBytes (cdc e) (StakingTx d) = Inr tx"
    "VerifyInclusionProofAndGetHeight (vrf e) tx (ucast (StakingTime d)) ipf = Inr ht"
    "s' = s\<lparr>btcDelegations := (btcDelegations s)
                    (TxHash (cdc e) tx \<mapsto>
                       d\<lparr>StartHeight := ht, EndHeight := ht + ucast (StakingTime d)\<rparr>),
                powerDistUpdateEvents := powerDistUpdateEvents s @
                    [(btcTipHeight e,
                      BtcDelStateUpdate
                        \<lparr>EventStakingTxHash = TxHash (cdc e) tx, NewState = ACTIVE\<rparr>),
                     (ht + ucast (StakingTime d) - CheckpointFinalizationTimeout e,
                      BtcDelStateUpdate
                        \<lparr>EventStakingTxHash = ProofStakingTxHash req, NewState = UNBONDED\<rparr>)],
                refundableMsgs := refundableMsgs s @ [RefundInclusionProof req]\<rparr>"
    by blast
  then show ?thesis
    by (intro exI[of _ d] exI[of _ tx] exI[of _ ipf] exI[of _ ht]) simp
qed

theorem inclusion_proof_events_witness:
  "AddBTCDelegationInclusionProof demoEnv demoProofReq signedState
     = (Ok (), snd (AddBTCDelegationInclusionProof demoEnv demoProofReq signedState))
   \<and> btcTipHeight demoEnv = 1010
   \<and> CheckpointFinalizationTimeout demoEnv = 10
   \<and> powerDistUpdateEvents signedState = []
   \<and> powerDistUpdateEvents (snd (AddBTCDelegationInclusionProof demoEnv demoProofReq signedState))
       = [(1010, BtcDelStateUpdate \<lparr>EventStakingTxHash = ''aa'', NewState = ACTIVE\<rparr>),
          (1000 + 100 - 10,
           BtcDelStateUpdate \<lparr>EventStakingTxHash = ''aa'', NewState = UNBONDED\<rparr>)]"
proof -
  have h: "AddBTCDelegationInclusionProof demoEnv demoProofReq signedState
     = (Ok (), snd (AddBTCDelegationInclusionProof demoEnv demoProofReq signedState))"
    by (simp add: AddBTCDelegationInclusionProof_def recordInclusion_def
          addPowerDistUpdateEvent_def NewEventPowerDistUpdateWithBTCDel_def
          getBTCDelWithParams_def GetBTCDelegation_def GetParamsByVersion_def
          setBTCDelegation_def GetStakingTxHash_def IndexRefundableMsg_def Let_def
          GetStatus_def HasInclusionProof_def HasCovenantQuorums_def demoParsed_def
          demoCodec_def demoVerifier_def demoEnv_def demoParams0_def demoParams1_def
          demoFp_def demoDel_def demoState_def signedDel_def signedState_def
          demoProofReq_def)
  have t: "btcTipHeight demoEnv = 1010" and w: "CheckpointFinalizationTimeout demoEnv = 10"
    and n: "powerDistUpdateEvents signedState = []"
    by (simp_all add: demoParsed_def demoCodec_def demoVerifier_def demoEnv_def
          demoParams0_def demoParams1_def demoFp_def demoDel_def demoState_def
          signedDel_def signedState_def demoProofReq_def)
  have v: "powerDistUpdateEvents
             (snd (AddBTCDelegationInclusionProof demoEnv demoProofReq signedState))
       = [(1010, BtcDelStateUpdate \<lparr>EventStakingTxHash = ''aa'', NewState = ACTIVE\<rparr>),
          (1000 + 100 - 10,
           BtcDelStateUpdate \<lparr>EventStakingTxHash = ''aa'', NewState = UNBONDED\<rparr>)]"
    by (simp add: AddBTCDelegationInclusionProof_def recordInclusion_def
          addPowerDistUpdateEvent_def NewEventPowerDistUpdateWithBTCDel_def
          getBTCDelWithParams_def GetBTCDelegation_def GetParamsByVersion_def
          setBTCDelegation_def GetStakingTxHash_def IndexRefundableMsg_def Let_def
          GetStatus_def HasInclusionProof_def HasCovenantQuorums_def demoParsed_def
          demoCodec_def demoVerifier_def demoEnv_def demoParams0_def demoParams1_def
          demoFp_def demoDel_def demoState_def signedDel_def signedState_def
          demoProofReq_def)
  from inclusion_proof_events[OF h]
  show ?thesis using h t w n v by simp
qed

text \<open>
  C2 as stated fails: the ACTIVE event is filed under the BTC tip height, not under the
  verified inclusion height. With the proof verified at height 1000 while the tip is at
  1010, the event is at 1010.
\<close>

theorem active_event_at_inclusion_height_counterexample:
  "VerifyInclusionProofAndGetHeight (vrf demoEnv) \<lparr>TxIn = [], TxOut = [[1]]\<rparr>
      (ucast (StakingTime signedDel)) [1] = Inr 1000
   \<and> fst (AddBTCDelegationInclusionProof demoEnv demoProofReq signedState) = Ok ()
   \<and> powerDistUpdateEvents (snd (AddBTCDelegationInclusionProof demoEnv demoProofReq signedState))
       = [(1010, BtcDelStateUpdate \<lparr>EventStakingTxHash = ''aa'', NewState = ACTIVE\<rparr>),
          (1090, BtcDelStateUpdate \<lparr>EventStakingTxHash = ''aa'', NewState = UNBONDED\<rparr>)]"
  by (simp add: AddBTCDelegationInclusionProof_def recordInclusion_def
          addPowerDistUpdateEvent_def NewEventPowerDistUpdateWithBTCDel_def
          getBTCDelWithParams_def GetBTCDelegation_def GetParamsByVersion_def
          setBTCDelegation_def GetStakingTxHash_def IndexRefundableMsg_def Let_def
          GetStatus_def HasInclusionProof_def HasCovenantQuorums_def demoParsed_def
          demoCodec_def demoVerifier_def demoEnv_def demoParams0_def demoParams1_def
          demoFp_def demoDel_def demoState_def signedDel_def signedState_def
          demoProofReq_def)

text \<open>
  C3, as amended. For an AddCovenantSigs request that reaches the count checks (it passes
  the stateless checks, its delegation and parameters exist, its key is a covenant key,
  it is no duplicate and the delegation is not unbonded): when the number of
  staking-slashing adaptor signatures differs from the number of finality providers, the
  request is rejected with the count-mismatch error before any cryptographic
  verification; when only the number of unbonding-slashing adaptor signatures differs,
  the request never succeeds, the state is unchanged, neither the Schnorr verification
  nor the unbonding-slashing adaptor verification runs, and the count-mismatch error is
  returned once the staking-slashing adaptor signatures have been verified.
\<close>

theorem count_mismatch_precedes_own_verification:
  assumes "CovSigsValidateBasic (cdc e) req"
    and "btcDelegations s (CovStakingTxHash req) = Some btcDel"
    and "paramsByVersion s (ParamsVersion btcDel) = Some params"
    and "HasCovenantPK params (Pk req)"
    and "\<not> (IsSignedByCovMember btcDel (Pk req)
            \<and> UndelIsSignedByCovMember (BtcUndelegation btcDel) (Pk req))"
    and "GetStatus btcDel (btcTipHeight e) (CheckpointFinalizationTimeout e)
           (CovenantQuorum params) \<noteq> UNBONDED"
  shows "(length (SlashingTxSigs req) \<noteq> length (FpBtcPkList btcDel) \<longrightarrow>
            AddCovenantSigs e req s =
              (Error (ErrInvalidCovenantSig
                        (SigCountMismatch (length (SlashingTxSigs req))
                                          (length (FpBtcPkList btcDel)))),
               s, []))
       \<and> (length (SlashingTxSigs req) = length (FpBtcPkList btcDel)
          \<and> length (SlashingUnbondingTxSigs req) \<noteq> length (FpBtcPkList btcDel) \<longrightarrow>
            fst (AddCovenantSigs e req s) \<noteq> Ok ()
          \<and> fst (snd (AddCovenantSigs e req s)) = s
          \<and> VerifyUnbondingSchnorrSig \<notin> set (snd (snd (AddCovenantSigs e req s)))
          \<and> VerifyUnbondingSlashingAdaptorSigs \<notin> set (snd (snd (AddCovenantSigs e req s)))
          \<and> (\<forall>si sp parsed.
                 GetStakingInfo (vrf e) btcDel params = Some si
               \<and> SlashingPathSpendInfo (vrf e) si = Some sp
               \<and> ParseEncVerifyAdaptorSignatures (vrf e) (SlashingTx btcDel) (StakingOutput si)
                    sp (Pk req) (FpBtcPkList btcDel) (SlashingTxSigs req) = Some parsed
               \<longrightarrow> AddCovenantSigs e req s =
                     (Error (ErrInvalidCovenantSig
                        (SigCountMismatch (length (SlashingUnbondingTxSigs req))
                                          (length (FpBtcPkList btcDel)))),
                      s, [VerifySlashingAdaptorSigs])))"
proof -
  have eq: "AddCovenantSigs e req s = covenantSigsSlashingPart e req s btcDel params"
    using assms by (rule AddCovenantSigs_reaches_counts)
  have first: "length (SlashingTxSigs req) \<noteq> length (FpBtcPkList btcDel) \<Longrightarrow>
      covenantSigsSlashingPart e req s btcDel params =
        (Error (ErrInvalidCovenantSig
                  (SigCountMismatch (length (SlashingTxSigs req))
                                    (length (FpBtcPkList btcDel)))), s, [])"
    by (simp add: covenantSigsSlashingPart_def)
  have second: "fst (covenantSigsSlashingPart e req s btcDel params) \<noteq> Ok ()
          \<and> fst (snd (covenantSigsSlashingPart e req s btcDel params)) = s
          \<and> VerifyUnbondingSchnorrSig \<notin> set (snd (snd (covenantSigsSlashingPart e req s btcDel params)))
          \<and> VerifyUnbondingSlashingAdaptorSigs \<notin> set (snd (snd (covenantSigsSlashingPart e req s btcDel params)))"
    if "length (SlashingTxSigs req) = length (FpBtcPkList btcDel)"
      and "length (SlashingUnbondingTxSigs req) \<noteq> length (FpBtcPkList btcDel)"
    using covenantSigsSlashingPart_second_mismatch[OF that, of e s params] by auto
  have third: "covenantSigsSlashingPart e req s btcDel params =
        (Error (ErrInvalidCovenantSig
                  (SigCountMismatch (length (SlashingUnbondingTxSigs req))
                                    (length (FpBtcPkList btcDel)))),
         s, [VerifySlashingAdaptorSigs])"
    if "length (SlashingTxSigs req) = length (FpBtcPkList btcDel)"
      and "length (SlashingUnbondingTxSigs req) \<noteq> length (FpBtcPkList btcDel)"
      and "GetStakingInfo (vrf e) btcDel params = Some si"
      and "SlashingPathSpendInfo (vrf e) si = Some sp"
      and "ParseEncVerifyAdaptorSignatures (vrf e) (SlashingTx btcDel) (StakingOutput si)
             sp (Pk req) (FpBtcPkList btcDel) (SlashingTxSigs req) = Some parsed"
    for si sp parsed
    using that by (simp add: covenantSigsSlashingPart_def covenantSigsUnbondingPart_mismatch)
  show ?thesis
    unfolding eq using first second third by blast
qed

theorem count_mismatch_precedes_own_verification_witness:
  "AddCovenantSigs demoEnv emptyCovReq demoState
     = (Error (ErrInvalidCovenantSig (SigCountMismatch 0 1)), demoState, [])
   \<and> length (SlashingTxSigs shortCovReq) = length (FpBtcPkList demoDel)
   \<and> length (SlashingUnbondingTxSigs shortCovReq) \<noteq> length (FpBtcPkList demoDel)
   \<and> fst (AddCovenantSigs demoEnv shortCovReq demoState) \<noteq> Ok ()
   \<and> VerifyUnbondingSchnorrSig \<notin> set (snd (snd (AddCovenantSigs demoEnv shortCovReq demoState)))"
proof -
  have h1: "CovSigsValidateBasic (cdc demoEnv) emptyCovReq"
    and h1': "CovSigsValidateBasic (cdc demoEnv) shortCovReq"
    by (simp_all add: demoParsed_def demoCodec_def demoVerifier_def demoEnv_def
          demoParams0_def demoParams1_def demoFp_def demoDel_def demoState_def
          demoCovReq_def shortCovReq_def emptyCovReq_def)
  have h2: "btcDelegations demoState (CovStakingTxHash emptyCovReq) = Some demoDel"
    and h2': "btcDelegations demoState (CovStakingTxHash shortCovReq) = Some demoDel"
    by (simp_all add: demoParsed_def demoCodec_def demoVerifier_def demoEnv_def
          demoParams0_def demoParams1_def demoFp_def demoDel_def demoState_def
          demoCovReq_def shortCovReq_def emptyCovReq_def)
  have h3: "paramsByVersion demoState (ParamsVersion demoDel) = Some demoParams0"
    by (simp add: demoParsed_def demoCodec_def demoVerifier_def demoEnv_def
          demoParams0_def demoParams1_def demoFp_def demoDel_def demoState_def
          demoCovReq_def shortCovReq_def emptyCovReq_def)
  have h4: "HasCovenantPK demoParams0 (Pk emptyCovReq)"
    and h4': "HasCovenantPK demoParams0 (Pk shortCovReq)"
    by (simp_all add: HasCovenantPK_def demoParsed_def demoCodec_def demoVerifier_def
          demoEnv_def demoParams0_def demoParams1_def demoFp_def demoDel_def
          demoState_def demoCovReq_def shortCovReq_def emptyCovReq_def)
  have h5: "\<not> (IsSignedByCovMember demoDel (Pk emptyCovReq)
              \<and> UndelIsSignedByCovMember (BtcUndelegation demoDel) (Pk emptyCovReq))"
    and h5': "\<not> (IsSignedByCovMember demoDel (Pk shortCovReq)
              \<and> UndelIsSignedByCovMember (BtcUndelegation demoDel) (Pk shortCovReq))"
    by (simp_all add: IsSignedByCovMember_def demoParsed_def demoCodec_def
          demoVerifier_def demoEnv_def demoParams0_def demoParams1_def demoFp_def
          demoDel_def demoState_def demoCovReq_def shortCovReq_def emptyCovReq_def)
  have h6: "GetStatus demoDel (btcTipHeight demoEnv) (CheckpointFinalizationTimeout demoEnv)
              (CovenantQuorum demoParams0) \<noteq> UNBONDED"
    by (simp add: GetStatus_def HasInclusionProof_def demoParsed_def demoCodec_def
          demoVerifier_def demoEnv_def demoParams0_def demoParams1_def demoFp_def
          demoDel_def demoState_def demoCovReq_def shortCovReq_def emptyCovReq_def)
  have l1: "length (SlashingTxSigs emptyCovReq) \<noteq> length (FpBtcPkList demoDel)"
    and l2: "length (SlashingTxSigs shortCovReq) = length (FpBtcPkList demoDel)"
    and l3: "length (SlashingUnbondingTxSigs shortCovReq) \<noteq> length (FpBtcPkList demoDel)"
    by (simp_all add: demoParsed_def demoCodec_def demoVerifier_def demoEnv_def
          demoParams0_def demoParams1_def demoFp_def demoDel_def demoState_def
          demoCovReq_def shortCovReq_def emptyCovReq_def)
  from count_mismatch_precedes_own_verification[OF h1 h2 h3 h4 h5 h6]
       count_mismatch_precedes_own_verification[OF h1' h2' h3 h4' h5' h6]
  show ?thesis using l1 l2 l3 by (simp add: emptyCovReq_def demoCovReq_def demoDel_def)
qed

text \<open>
  C3 as stated fails for the unbonding-slashing list: its count is checked only after
  the adaptor signatures over the staking-slashing transaction have been verified.
\<close>

theorem count_mismatch_before_any_verification_counterexample:
  "btcDelegations demoState (CovStakingTxHash shortCovReq) = Some demoDel
   \<and> length (SlashingUnbondingTxSigs shortCovReq) \<noteq> length (FpBtcPkList demoDel)
   \<and> AddCovenantSigs demoEnv shortCovReq demoState
       = (Error (ErrInvalidCovenantSig (SigCountMismatch 0 1)), demoState,
          [VerifySlashingAdaptorSigs])"
  by (simp add: AddCovenantSigs_def covenantSigsSlashingPart_def
          covenantSigsUnbondingPart_def HasCovenantPK_def IsSignedByCovMember_def
          UndelIsSignedByCovMember_def addCovenantSigsToBTCDelegation_def
          GetParamsWithVersion_def getBTCDelWithParams_def GetBTCDelegation_def
          GetParamsByVersion_def setBTCDelegation_def GetStakingTxHash_def
          IndexRefundableMsg_def Let_def GetStatus_def HasInclusionProof_def
          HasCovenantQuorums_def demoParsed_def demoCodec_def demoVerifier_def
          demoEnv_def demoParams0_def demoParams1_def demoFp_def demoDel_def
          demoState_def demoCovReq_def shortCovReq_def emptyCovReq_def)

text \<open>
  C4, as amended. A CreateBTCDelegation request that parses and whose staking transaction
  hash is that of a stored delegation is always rejected and leaves the state unchanged;
  the error is the duplicate error when the proof of possession verifies, and the
  proof-of-possession error otherwise, whatever the other fields are.
\<close>

theorem duplicate_staking_tx_rejected:
  assumes "ParseCreateDelegationMessage (cdc e) req = Some parsedMsg"
    and "btcDelegations s (TxHash (cdc e) (Transaction (ParsedStakingTx parsedMsg))) = Some old"
  shows "CreateBTCDelegation e req s =
           (Error (if PopVerify (vrf e) (ParsedPop parsedMsg) (StakerAddress parsedMsg)
                        (StakerPK parsedMsg)
                   then ErrReusedStakingTx else ErrInvalidProofOfPossession), s)"
  using assms by (simp add: CreateBTCDelegation_def getBTCDelegation_def)

theorem duplicate_staking_tx_rejected_witness:
  "ParseCreateDelegationMessage (cdc demoEnv) [1] = Some demoParsed
   \<and> btcDelegations demoState
        (TxHash (cdc demoEnv) (Transaction (ParsedStakingTx demoParsed))) = Some demoDel
   \<and> CreateBTCDelegation demoEnv [1] demoState = (Error ErrReusedStakingTx, demoState)"
proof -
  have p: "ParseCreateDelegationMessage (cdc demoEnv) [1] = Some demoParsed"
    by (simp add: demoParsed_def demoCodec_def demoVerifier_def demoEnv_def
          demoParams0_def demoParams1_def demoFp_def demoDel_def demoState_def)
  have d: "btcDelegations demoState
        (TxHash (cdc demoEnv) (Transaction (ParsedStakingTx demoParsed))) = Some demoDel"
    by (simp add: demoParsed_def demoCodec_def demoVerifier_def demoEnv_def
          demoParams0_def demoParams1_def demoFp_def demoDel_def demoState_def)
  have v: "PopVerify (vrf demoEnv) (ParsedPop demoParsed) (StakerAddress demoParsed)
             (StakerPK demoParsed)"
    by (simp add: demoParsed_def demoCodec_def demoVerifier_def demoEnv_def
          demoParams0_def demoParams1_def demoFp_def demoDel_def demoState_def)
  from duplicate_staking_tx_rejected[OF p d]
  show ?thesis using p d v by simp
qed

text \<open>
  C4 as stated fails: the proof of possession is verified before the duplicate check, so
  a duplicate request with an invalid proof of possession gets the proof-of-possession
  error, not the duplicate error.
\<close>

theorem duplicate_error_regardless_counterexample:
  "ParseCreateDelegationMessage (cdc demoEnv) [0] = Some (demoParsed\<lparr>ParsedPop := []\<rparr>)
   \<and> btcDelegations demoState
        (TxHash (cdc demoEnv) (Transaction (ParsedStakingTx (demoParsed\<lparr>ParsedPop := []\<rparr>))))
       = Some demoDel
   \<and> CreateBTCDelegation demoEnv [0] demoState = (Error ErrInvalidProofOfPossession, demoState)"
  by (simp add: CreateBTCDelegation_def getBTCDelegation_def demoParsed_def
          demoCodec_def demoVerifier_def demoEnv_def demoParams0_def demoParams1_def
          demoFp_def demoDel_def demoState_def)

text \<open>
  C5. An AddCovenantSigs request that passes the stateless checks, from a covenant member
  of the delegation's parameters who has already signed both slashing paths, is rejected
  with the duplicate error; no cryptographic verification runs and the state, the
  delegation record included, is unchanged.
\<close>

theorem duplicate_covenant_sigs_rejected:
  assumes "CovSigsValidateBasic (cdc e) req"
    and "btcDelegations s (CovStakingTxHash req) = Some btcDel"
    and "paramsByVersion s (ParamsVersion btcDel) = Some params"
    and "HasCovenantPK params (Pk req)"
    and "IsSignedByCovMember btcDel (Pk req)"
    and "UndelIsSignedByCovMember (BtcUndelegation btcDel) (Pk req)"
  shows "AddCovenantSigs e req s = (Error ErrDuplicatedCovenantSig, s, [])"
  using assms by (simp add: AddCovenantSigs_def getBTCDelWithParams_def GetBTCDelegation_def
      GetParamsByVersion_def)

theorem duplicate_covenant_sigs_rejected_witness:
  "CovSigsValidateBasic (cdc demoEnv) demoCovReq
   \<and> btcDelegations signedState (CovStakingTxHash demoCovReq) = Some signedDel
   \<and> paramsByVersion signedState (ParamsVersion signedDel) = Some demoParams0
   \<and> HasCovenantPK demoParams0 (Pk demoCovReq)
   \<and> IsSignedByCovMember signedDel (Pk demoCovReq)
   \<and> UndelIsSignedByCovMember (BtcUndelegation signedDel) (Pk demoCovReq)
   \<and> AddCovenantSigs demoEnv demoCovReq signedState
       = (Error ErrDuplicatedCovenantSig, signedState, [])"
proof -
  have h1: "CovSigsValidateBasic (cdc demoEnv) demoCovReq"
    by (simp add: demoParsed_def demoCodec_def demoVerifier_def demoEnv_def
          demoParams0_def demoParams1_def demoFp_def demoDel_def demoState_def
          signedDel_def signedState_def demoCovReq_def)
  have h2: "btcDelegations signedState (CovStakingTxHash demoCovReq) = Some signedDel"
    by (simp add: demoParsed_def demoCodec_def demoVerifier_def demoEnv_def
          demoParams0_def demoParams1_def demoFp_def demoDel_def demoState_def
          signedDel_def signedState_def demoCovReq_def)
  have h3: "paramsByVersion signedState (ParamsVersion signedDel) = Some demoParams0"
    by (simp add: demoParsed_def demoCodec_def demoVerifier_def demoEnv_def
          demoParams0_def demoParams1_def demoFp_def demoDel_def demoState_def
          signedDel_def signedState_def demoCovReq_def)
  have h4: "HasCovenantPK demoParams0 (Pk demoCovReq)"
    by (simp add: HasCovenantPK_def demoParsed_def demoCodec_def demoVerifier_def
          demoEnv_def demoParams0_def demoParams1_def demoFp_def demoDel_def
          demoState_def signedDel_def signedState_def demoCovReq_def)
  have h5: "IsSignedByCovMember signedDel (Pk demoCovReq)"
    by (simp add: IsSignedByCovMember_def demoParsed_def demoCodec_def demoVerifier_def
          demoEnv_def demoParams0_def demoParams1_def demoFp_def demoDel_def
          demoState_def signedDel_def signedState_def demoCovReq_def)
  have h6: "UndelIsSignedByCovMember (BtcUndelegation signedDel) (Pk demoCovReq)"
    by (simp add: UndelIsSignedByCovMember_def demoParsed_def demoCodec_def
          demoVerifier_def demoEnv_def demoParams0_def demoParams1_def demoFp_def
          demoDel_def demoState_def signedDel_def signedState_def demoCovReq_def)
  from duplicate_covenant_sigs_rejected[OF h1 h2 h3 h4 h5 h6]
  show ?thesis using h1 h2 h3 h4 h5 h6 by simp
qed

text \<open>
  C6, as amended. AddCovenantSigs checks the covenant public key against the parameter set
  of the version recorded in the delegation, not against the parameters in force: a
  request whose key is not in the delegation's parameter set is rejected with the
  invalid-covenant-key error before any signature verification and without a state
  change, and a request that runs a verification or succeeds has its key in that set.
\<close>

theorem covenant_pk_checked_against_bound_params:
  assumes "CovSigsValidateBasic (cdc e) req"
    and "btcDelegations s (CovStakingTxHash req) = Some btcDel"
    and "paramsByVersion s (ParamsVersion btcDel) = Some params"
  shows "(\<not> HasCovenantPK params (Pk req) \<longrightarrow>
            AddCovenantSigs e req s = (Error ErrInvalidCovenantPK, s, []))
       \<and> (snd (snd (AddCovenantSigs e req s)) \<noteq> [] \<longrightarrow> HasCovenantPK params (Pk req))
       \<and> (fst (AddCovenantSigs e req s) = Ok () \<longrightarrow> HasCovenantPK params (Pk req))"
proof -
  have a: "\<not> HasCovenantPK params (Pk req) \<Longrightarrow>
             AddCovenantSigs e req s = (Error ErrInvalidCovenantPK, s, [])"
    using assms by (simp add: AddCovenantSigs_def getBTCDelWithParams_def GetBTCDelegation_def
      GetParamsByVersion_def)
  then show ?thesis by (cases "HasCovenantPK params (Pk req)") auto
qed

theorem covenant_pk_checked_against_bound_params_witness:
  "CovSigsValidateBasic (cdc demoEnv) strangerCovReq
   \<and> btcDelegations demoState (CovStakingTxHash strangerCovReq) = Some demoDel
   \<and> paramsByVersion demoState (ParamsVersion demoDel) = Some demoParams0
   \<and> \<not> HasCovenantPK demoParams0 (Pk strangerCovReq)
   \<and> AddCovenantSigs demoEnv strangerCovReq demoState
       = (Error ErrInvalidCovenantPK, demoState, [])
   \<and> fst (AddCovenantSigs demoEnv demoCovReq demoState) = Ok ()
   \<and> HasCovenantPK demoParams0 (Pk demoCovReq)"
proof -
  have h1: "CovSigsValidateBasic (cdc demoEnv) strangerCovReq"
    and h1': "CovSigsValidateBasic (cdc demoEnv) demoCovReq"
    by (simp_all add: demoParsed_def demoCodec_def demoVerifier_def demoEnv_def
          demoParams0_def demoParams1_def demoFp_def demoDel_def demoState_def
          demoCovReq_def strangerCovReq_def)
  have h2: "btcDelegations demoState (CovStakingTxHash strangerCovReq) = Some demoDel"
    and h2': "btcDelegations demoState (CovStakingTxHash demoCovReq) = Some demoDel"
    by (simp_all add: demoParsed_def demoCodec_def demoVerifier_def demoEnv_def
          demoParams0_def demoParams1_def demoFp_def demoDel_def demoState_def
          demoCovReq_def strangerCovReq_def)
  have h3: "paramsByVersion demoState (ParamsVersion demoDel) = Some demoParams0"
    by (simp add: demoParsed_def demoCodec_def demoVerifier_def demoEnv_def
          demoParams0_def demoParams1_def demoFp_def demoDel_def demoState_def
          demoCovReq_def strangerCovReq_def)
  have h4: "\<not> HasCovenantPK demoParams0 (Pk strangerCovReq)"
    by (simp add: HasCovenantPK_def demoParsed_def demoCodec_def demoVerifier_def
          demoEnv_def demoParams0_def demoParams1_def demoFp_def demoDel_def
          demoState_def demoCovReq_def strangerCovReq_def)
  have h5: "fst (AddCovenantSigs demoEnv demoCovReq demoState) = Ok ()"
    by (simp add: AddCovenantSigs_def covenantSigsSlashingPart_def
          covenantSigsUnbondingPart_def HasCovenantPK_def IsSignedByCovMember_def
          UndelIsSignedByCovMember_def addCovenantSigsToBTCDelegation_def
          GetParamsWithVersion_def getBTCDelWithParams_def GetBTCDelegation_def
          GetParamsByVersion_def setBTCDelegation_def GetStakingTxHash_def
          IndexRefundableMsg_def Let_def GetStatus_def HasInclusionProof_def
          HasCovenantQuorums_def demoParsed_def demoCodec_def demoVerifier_def
          demoEnv_def demoParams0_def demoParams1_def demoFp_def demoDel_def
          demoState_def demoCovReq_def strangerCovReq_def)
  from covenant_pk_checked_against_bound_params[OF h1 h2 h3]
       covenant_pk_checked_against_bound_params[OF h1' h2' h3]
  show ?thesis using h1 h2 h3 h4 h5 by blast
qed

text \<open>
  C6 as stated fails: a key that is absent from the parameters in force but present in
  the parameters of the delegation's version is accepted, all three verifications run and
  the request succeeds.
\<close>

theorem covenant_pk_current_params_counterexample:
  "\<not> HasCovenantPK (StoredParamsOf (GetParamsWithVersion demoState)) (Pk demoCovReq)
   \<and> fst (AddCovenantSigs demoEnv demoCovReq demoState) = Ok ()
   \<and> snd (snd (AddCovenantSigs demoEnv demoCovReq demoState))
       = [VerifySlashingAdaptorSigs, VerifyUnbondingSchnorrSig,
          VerifyUnbondingSlashingAdaptorSigs]"
  by (simp add: AddCovenantSigs_def covenantSigsSlashingPart_def
          covenantSigsUnbondingPart_def HasCovenantPK_def IsSignedByCovMember_def
          UndelIsSignedByCovMember_def addCovenantSigsToBTCDelegation_def
          GetParamsWithVersion_def getBTCDelWithParams_def GetBTCDelegation_def
          GetParamsByVersion_def setBTCDelegation_def GetStakingTxHash_def
          IndexRefundableMsg_def Let_def GetStatus_def HasInclusionProof_def
          HasCovenantQuorums_def demoParsed_def demoCodec_def demoVerifier_def
          demoEnv_def demoParams0_def demoParams1_def demoFp_def demoDel_def
          demoState_def demoCovReq_def strangerCovReq_def)

text \<open>
  C7. A BTCUndelegate request that passes the stateless checks, on an existing delegation
  whose parameters exist, is rejected with the invalid-undelegate-request error and
  without a state change when the derived status is PENDING and when it is UNBONDED; a
  request that succeeds, or changes the state at all, is on a delegation that is neither.
\<close>

theorem undelegate_needs_active_status:
  assumes "UndelegateValidateBasic (cdc e) req"
    and "btcDelegations s (UndelStakingTxHash req) = Some btcDel"
    and "paramsByVersion s (ParamsVersion btcDel) = Some params"
  shows "(GetStatus btcDel (btcTipHeight e) (CheckpointFinalizationTimeout e)
              (CovenantQuorum params) = PENDING
          \<or> GetStatus btcDel (btcTipHeight e) (CheckpointFinalizationTimeout e)
              (CovenantQuorum params) = UNBONDED
          \<longrightarrow> BTCUndelegate e req s = (Error ErrInvalidBTCUndelegateReq, s))
       \<and> (fst (BTCUndelegate e req s) = Ok () \<or> snd (BTCUndelegate e req s) \<noteq> s
          \<longrightarrow> GetStatus btcDel (btcTipHeight e) (CheckpointFinalizationTimeout e)
                 (CovenantQuorum params) \<noteq> PENDING
            \<and> GetStatus btcDel (btcTipHeight e) (CheckpointFinalizationTimeout e)
                 (CovenantQuorum params) \<noteq> UNBONDED)"
proof -
  have rej: "BTCUndelegate e req s = (Error ErrInvalidBTCUndelegateReq, s)"
    if "GetStatus btcDel (btcTipHeight e) (CheckpointFinalizationTimeout e)
              (CovenantQuorum params) = PENDING
          \<or> GetStatus btcDel (btcTipHeight e) (CheckpointFinalizationTimeout e)
              (CovenantQuorum params) = UNBONDED"
    using assms that by (rule BTCUndelegate_after_lookup)
  have "GetStatus btcDel (btcTipHeight e) (CheckpointFinalizationTimeout e)
                 (CovenantQuorum params) \<noteq> PENDING
            \<and> GetStatus btcDel (btcTipHeight e) (CheckpointFinalizationTimeout e)
                 (CovenantQuorum params) \<noteq> UNBONDED"
    if "fst (BTCUndelegate e req s) = Ok () \<or> snd (BTCUndelegate e req s) \<noteq> s"
    using that rej by fastforce
  with rej show ?thesis by blast
qed

theorem undelegate_needs_active_status_witness:
  "GetStatus demoDel (btcTipHeight demoEnv) (CheckpointFinalizationTimeout demoEnv)
     (CovenantQuorum demoParams0) = PENDING
   \<and> BTCUndelegate demoEnv demoUndelReq demoState = (Error ErrInvalidBTCUndelegateReq, demoState)
   \<and> GetStatus unbondedDel (btcTipHeight demoEnv) (CheckpointFinalizationTimeout demoEnv)
     (CovenantQuorum demoParams0) = UNBONDED
   \<and> BTCUndelegate demoEnv demoUndelReq unbondedState
       = (Error ErrInvalidBTCUndelegateReq, unbondedState)
   \<and> fst (BTCUndelegate demoEnv demoUndelReq activeState) = Ok ()
   \<and> btcDelegations (snd (BTCUndelegate demoEnv demoUndelReq activeState)) ''aa''
       = Some (activeDel\<lparr>BtcUndelegation :=
                 (BtcUndelegation activeDel)\<lparr>DelegatorUnbondingSig := Some [1]\<rparr>\<rparr>)
   \<and> GetStatus activeDel (btcTipHeight demoEnv) (CheckpointFinalizationTimeout demoEnv)
     (CovenantQuorum demoParams0) = ACTIVE"
proof -
  have v: "UndelegateValidateBasic (cdc demoEnv) demoUndelReq"
    by (simp add: demoParsed_def demoCodec_def demoVerifier_def demoEnv_def
          demoParams0_def demoParams1_def demoFp_def demoDel_def demoState_def
          signedDel_def activeDel_def activeState_def unbondedDel_def unbondedState_def
          demoUndelReq_def)
  have d1: "btcDelegations demoState (UndelStakingTxHash demoUndelReq) = Some demoDel"
    and d2: "btcDelegations unbondedState (UndelStakingTxHash demoUndelReq) = Some unbondedDel"
    and d3: "btcDelegations activeState (UndelStakingTxHash demoUndelReq) = Some activeDel"
    by (simp_all add: demoParsed_def demoCodec_def demoVerifier_def demoEnv_def
          demoParams0_def demoParams1_def demoFp_def demoDel_def demoState_def
          signedDel_def activeDel_def activeState_def unbondedDel_def unbondedState_def
          demoUndelReq_def)
  have p1: "paramsByVersion demoState (ParamsVersion demoDel) = Some demoParams0"
    and p2: "paramsByVersion unbondedState (ParamsVersion unbondedDel) = Some demoParams0"
    and p3: "paramsByVersion activeState (ParamsVersion activeDel) = Some demoParams0"
    by (simp_all add: demoParsed_def demoCodec_def demoVerifier_def demoEnv_def
          demoParams0_def demoParams1_def demoFp_def demoDel_def demoState_def
          signedDel_def activeDel_def activeState_def unbondedDel_def unbondedState_def
          demoUndelReq_def)
  have s1: "GetStatus demoDel (btcTipHeight demoEnv) (CheckpointFinalizationTimeout demoEnv)
     (CovenantQuorum demoParams0) = PENDING"
    and s2: "GetStatus unbondedDel (btcTipHeight demoEnv) (CheckpointFinalizationTimeout demoEnv)
     (CovenantQuorum demoParams0) = UNBONDED"
    and s3: "GetStatus activeDel (btcTipHeight demoEnv) (CheckpointFinalizationTimeout demoEnv)
     (CovenantQuorum demoParams0) = ACTIVE"
    by (simp_all add: GetStatus_def HasInclusionProof_def HasCovenantQuorums_def
          demoParsed_def demoCodec_def demoVerifier_def demoEnv_def demoParams0_def
          demoParams1_def demoFp_def demoDel_def demoState_def signedDel_def
          activeDel_def activeState_def unbondedDel_def unbondedState_def
          demoUndelReq_def)
  have ok: "fst (BTCUndelegate demoEnv demoUndelReq activeState) = Ok ()"
    by (simp add: BTCUndelegate_def btcUndelegate_def getBTCDelWithParams_def
          GetBTCDelegation_def GetParamsByVersion_def setBTCDelegation_def
          GetStakingTxHash_def IndexRefundableMsg_def Let_def GetStatus_def
          HasInclusionProof_def HasCovenantQuorums_def demoParsed_def demoCodec_def
          demoVerifier_def demoEnv_def demoParams0_def demoParams1_def demoFp_def
          demoDel_def demoState_def signedDel_def activeDel_def activeState_def
          unbondedDel_def unbondedState_def demoUndelReq_def)
  have rec: "btcDelegations (snd (BTCUndelegate demoEnv demoUndelReq activeState)) ''aa''
       = Some (activeDel\<lparr>BtcUndelegation :=
                 (BtcUndelegation activeDel)\<lparr>DelegatorUnbondingSig := Some [1]\<rparr>\<rparr>)"
    by (simp add: BTCUndelegate_def btcUndelegate_def getBTCDelWithParams_def
          GetBTCDelegation_def GetParamsByVersion_def setBTCDelegation_def
          GetStakingTxHash_def IndexRefundableMsg_def Let_def GetStatus_def
          HasInclusionProof_def HasCovenantQuorums_def demoParsed_def demoCodec_def
          demoVerifier_def demoEnv_def demoParams0_def demoParams1_def demoFp_def
          demoDel_def demoState_def signedDel_def activeDel_def activeState_def
          unbondedDel_def unbondedState_def demoUndelReq_def)
  from undelegate_needs_active_status[OF v d1 p1]
       undelegate_needs_active_status[OF v d2 p2]
       undelegate_needs_active_status[OF v d3 p3]
  show ?thesis using s1 s2 s3 ok rec by simp
qed

text \<open>
  C8. Selective-slashing evidence whose recovered key is not in the provider list of the
  (existing) delegation is rejected with a not-found error: the provider-not-found error
  when the delegation is active or unbonded early, the delegation-not-found error
  otherwise. The state, and so the finality-provider registry, is unchanged.
\<close>

theorem evidence_for_foreign_provider_rejected:
  assumes "btcDelegations s (EvidenceStakingTxHash req) = Some btcDel"
    and "paramsByVersion s (ParamsVersion btcDel) = Some params"
    and "snd (PrivKeyFromBytes (cdc e) (RecoveredFpBtcSk req)) \<notin> set (FpBtcPkList btcDel)"
  shows "SelectiveSlashingEvidence e req s =
           (Error (if GetStatus btcDel (btcTipHeight e) (CheckpointFinalizationTimeout e)
                        (CovenantQuorum params) \<noteq> ACTIVE
                      \<and> \<not> IsUnbondedEarly btcDel
                   then ErrBTCDelegationNotFound else ErrFpNotFound), s)
       \<and> finalityProviders (snd (SelectiveSlashingEvidence e req s)) = finalityProviders s"
  using assms by (simp add: SelectiveSlashingEvidence_after_lookup)

theorem evidence_for_foreign_provider_rejected_witness:
  "btcDelegations activeState (EvidenceStakingTxHash foreignEvidence) = Some activeDel
   \<and> paramsByVersion activeState (ParamsVersion activeDel) = Some demoParams0
   \<and> snd (PrivKeyFromBytes (cdc demoEnv) (RecoveredFpBtcSk foreignEvidence))
        \<notin> set (FpBtcPkList activeDel)
   \<and> SelectiveSlashingEvidence demoEnv foreignEvidence activeState
        = (Error ErrFpNotFound, activeState)
   \<and> finalityProviders (snd (SelectiveSlashingEvidence demoEnv foreignEvidence activeState))
        = finalityProviders activeState"
proof -
  have d: "btcDelegations activeState (EvidenceStakingTxHash foreignEvidence) = Some activeDel"
    by (simp add: demoParsed_def demoCodec_def demoVerifier_def demoEnv_def
          demoParams0_def demoParams1_def demoFp_def demoDel_def demoState_def
          signedDel_def activeDel_def activeState_def foreignEvidence_def)
  have p: "paramsByVersion activeState (ParamsVersion activeDel) = Some demoParams0"
    by (simp add: demoParsed_def demoCodec_def demoVerifier_def demoEnv_def
          demoParams0_def demoParams1_def demoFp_def demoDel_def demoState_def
          signedDel_def activeDel_def activeState_def foreignEvidence_def)
  have k: "snd (PrivKeyFromBytes (cdc demoEnv) (RecoveredFpBtcSk foreignEvidence))
             \<notin> set (FpBtcPkList activeDel)"
    by (simp add: demoParsed_def demoCodec_def demoVerifier_def demoEnv_def
          demoParams0_def demoParams1_def demoFp_def demoDel_def demoState_def
          signedDel_def activeDel_def activeState_def foreignEvidence_def)
  have st: "GetStatus activeDel (btcTipHeight demoEnv) (CheckpointFinalizationTimeout demoEnv)
     (CovenantQuorum demoParams0) = ACTIVE"
    by (simp add: GetStatus_def HasInclusionProof_def HasCovenantQuorums_def
          demoParsed_def demoCodec_def demoVerifier_def demoEnv_def demoParams0_def
          demoParams1_def demoFp_def demoDel_def demoState_def signedDel_def
          activeDel_def activeState_def foreignEvidence_def)
  from evidence_for_foreign_provider_rejected[OF d p k]
  show ?thesis using d p k st by simp
qed

text \<open>
  C9. A successful EditFinalityProvider rewrites only the description and the commission
  of the provider found under the request's BTC public key: the record written back has
  the same BTC public key, address, slashed flag and slashing height, and nothing else in
  the state changes. Success implies that the signer's address, parsed and printed, equals
  the registered address under the handler's comparison (\<^verbatim>\<open>strings.EqualFold\<close>: for
  addresses of ASCII text, equality up to letter case) and that the new commission lies
  between the minimum commission rate and one.
\<close>

theorem EditFinalityProvider_frame:
  assumes "EditFinalityProvider e req s = (Ok (), s')"
  shows "\<exists>fp fpAddr fp'.
           finalityProviders s (EditBtcPk req) = Some fp
         \<and> AccAddressFromBech32 (cdc e) (EditAddr req) = Some fpAddr
         \<and> EqualFold (cdc e) (AccAddressString (cdc e) fpAddr) (Addr fp)
         \<and> (isASCII (AccAddressString (cdc e) fpAddr) \<and> isASCII (Addr fp) \<longrightarrow>
              map toLower (AccAddressString (cdc e) fpAddr) = map toLower (Addr fp))
         \<and> GetMinCommissionRate s \<le> EditCommission req
         \<and> EditCommission req \<le> LegacyOneDec
         \<and> fp' = fp\<lparr>Description := EditDescription req, Commission := EditCommission req\<rparr>
         \<and> BtcPk fp' = BtcPk fp \<and> Addr fp' = Addr fp
         \<and> Slashed fp' = Slashed fp \<and> SlashedHeight fp' = SlashedHeight fp
         \<and> s' = s\<lparr>finalityProviders := (finalityProviders s)(BtcPk fp \<mapsto> fp')\<rparr>"
proof -
  from assms obtain fp fpAddr where f:
    "finalityProviders s (EditBtcPk req) = Some fp"
    "AccAddressFromBech32 (cdc e) (EditAddr req) = Some fpAddr"
    "EqualFold (cdc e) (AccAddressString (cdc e) fpAddr) (Addr fp)"
    "GetMinCommissionRate s \<le> EditCommission req"
    "EditCommission req \<le> LegacyOneDec"
    "s' = s\<lparr>finalityProviders := (finalityProviders s)
            (BtcPk fp \<mapsto> fp\<lparr>Description := EditDescription req,
                             Commission := EditCommission req\<rparr>)\<rparr>"
    by (auto simp: EditFinalityProvider_def GetFinalityProvider_def setFinalityProvider_def
             split: if_splits sum.splits option.splits)
  from f(3) have "isASCII (AccAddressString (cdc e) fpAddr) \<and> isASCII (Addr fp) \<longrightarrow>
              map toLower (AccAddressString (cdc e) fpAddr) = map toLower (Addr fp)"
    by (simp add: EqualFold_def)
  with f show ?thesis by auto
qed

theorem EditFinalityProvider_frame_witness:
  "EditFinalityProvider demoEnv demoEditReq demoState =
     (Ok (), demoState\<lparr>finalityProviders :=
                [[7] \<mapsto> demoFp\<lparr>Description := ''new'', Commission := 2 * 10 ^ 17\<rparr>]\<rparr>)
   \<and> GetMinCommissionRate demoState \<le> EditCommission demoEditReq
   \<and> EditCommission demoEditReq \<le> LegacyOneDec
   \<and> isASCII ''bbn1fp'' \<and> isASCII (Addr demoFp)
   \<and> map toLower ''bbn1fp'' = map toLower (Addr demoFp)"
proof -
  have asc: "isASCII ''bbn1fp''" "isASCII ''BBN1FP''"
    and low: "map toLower ''bbn1fp'' = map toLower ''BBN1FP''"
    by code_simp+
  have eq: "EqualFold c ''bbn1fp'' ''BBN1FP''" for c
    using asc low by (simp only: EqualFold_def if_True simp_thms)
  have h: "EditFinalityProvider demoEnv demoEditReq demoState =
     (Ok (), demoState\<lparr>finalityProviders :=
                [[7] \<mapsto> demoFp\<lparr>Description := ''new'', Commission := 2 * 10 ^ 17\<rparr>]\<rparr>)"
    using eq
    by (simp add: EditFinalityProvider_def GetFinalityProvider_def
          setFinalityProvider_def GetMinCommissionRate_def LegacyOneDec_def
          demoParsed_def demoCodec_def demoVerifier_def demoEnv_def demoParams0_def
          demoParams1_def demoFp_def demoDel_def demoState_def demoEditReq_def)
  from EditFinalityProvider_frame[OF h] show ?thesis
    using h asc low by (auto simp: demoParsed_def demoCodec_def demoVerifier_def demoEnv_def
          demoParams0_def demoParams1_def demoFp_def demoDel_def demoState_def
          demoEditReq_def)
qed

text \<open>
  C10, as amended. In SelectiveSlashingEvidence, on an existing delegation whose
  parameters exist: a delegation that is neither ACTIVE nor unbonded early is rejected
  with the delegation-not-found error, whatever the registry holds. Past that
  eligibility check, when the recovered key is in the delegation's provider list and the
  registry has no provider under it, the handler panics instead of returning a user
  error. An error is returned only when the delegation is not eligible (the
  delegation-not-found error), when the key is absent from the list (the
  provider-not-found error) or when the provider is already slashed. No outcome but
  success changes the state.
\<close>

theorem missing_registry_entry_panics:
  assumes "btcDelegations s (EvidenceStakingTxHash req) = Some btcDel"
    and "paramsByVersion s (ParamsVersion btcDel) = Some params"
  shows "(GetStatus btcDel (btcTipHeight e) (CheckpointFinalizationTimeout e)
              (CovenantQuorum params) \<noteq> ACTIVE \<and> \<not> IsUnbondedEarly btcDel
          \<longrightarrow> SelectiveSlashingEvidence e req s = (Error ErrBTCDelegationNotFound, s))
       \<and> ((GetStatus btcDel (btcTipHeight e) (CheckpointFinalizationTimeout e)
              (CovenantQuorum params) = ACTIVE \<or> IsUnbondedEarly btcDel)
          \<and> snd (PrivKeyFromBytes (cdc e) (RecoveredFpBtcSk req)) \<in> set (FpBtcPkList btcDel)
          \<and> finalityProviders s (snd (PrivKeyFromBytes (cdc e) (RecoveredFpBtcSk req))) = None
          \<longrightarrow> SelectiveSlashingEvidence e req s = (Panic, s))
       \<and> (\<forall>er. fst (SelectiveSlashingEvidence e req s) = Error er \<longrightarrow>
             (GetStatus btcDel (btcTipHeight e) (CheckpointFinalizationTimeout e)
                (CovenantQuorum params) \<noteq> ACTIVE \<and> \<not> IsUnbondedEarly btcDel
              \<and> er = ErrBTCDelegationNotFound)
           \<or> (snd (PrivKeyFromBytes (cdc e) (RecoveredFpBtcSk req)) \<notin> set (FpBtcPkList btcDel)
              \<and> er = ErrFpNotFound)
           \<or> (\<exists>fp. finalityProviders s (snd (PrivKeyFromBytes (cdc e) (RecoveredFpBtcSk req)))
                      = Some fp
                   \<and> IsSlashed fp \<and> er = ErrFpAlreadySlashed))
       \<and> (fst (SelectiveSlashingEvidence e req s) \<noteq> Ok () \<longrightarrow>
             snd (SelectiveSlashingEvidence e req s) = s)"
  using assms
  by (auto simp: SelectiveSlashingEvidence_after_lookup split: option.splits if_splits)

theorem missing_registry_entry_panics_witness:
  "SelectiveSlashingEvidence demoEnv demoEvidence orphanState = (Panic, orphanState)
   \<and> SelectiveSlashingEvidence demoEnv demoEvidence demoState
        = (Error ErrBTCDelegationNotFound, demoState)
   \<and> fst (SelectiveSlashingEvidence demoEnv foreignEvidence activeState) = Error ErrFpNotFound
   \<and> fst (SelectiveSlashingEvidence demoEnv demoEvidence slashedState)
        = Error ErrFpAlreadySlashed
   \<and> fst (SelectiveSlashingEvidence demoEnv demoEvidence activeState) = Ok ()"
proof -
  have d1: "btcDelegations orphanState (EvidenceStakingTxHash demoEvidence) = Some activeDel"
    and d2: "btcDelegations demoState (EvidenceStakingTxHash demoEvidence) = Some demoDel"
    by (simp_all add: demoParsed_def demoCodec_def demoVerifier_def demoEnv_def
          demoParams0_def demoParams1_def demoFp_def demoDel_def demoState_def
          signedDel_def activeDel_def activeState_def orphanState_def slashedState_def
          demoEvidence_def foreignEvidence_def)
  have p1: "paramsByVersion orphanState (ParamsVersion activeDel) = Some demoParams0"
    and p2: "paramsByVersion demoState (ParamsVersion demoDel) = Some demoParams0"
    by (simp_all add: demoParsed_def demoCodec_def demoVerifier_def demoEnv_def
          demoParams0_def demoParams1_def demoFp_def demoDel_def demoState_def
          signedDel_def activeDel_def activeState_def orphanState_def slashedState_def
          demoEvidence_def foreignEvidence_def)
  have st: "GetStatus activeDel (btcTipHeight demoEnv) (CheckpointFinalizationTimeout demoEnv)
     (CovenantQuorum demoParams0) = ACTIVE"
    and st2: "GetStatus demoDel (btcTipHeight demoEnv) (CheckpointFinalizationTimeout demoEnv)
     (CovenantQuorum demoParams0) \<noteq> ACTIVE" "\<not> IsUnbondedEarly demoDel"
    by (simp_all add: GetStatus_def HasInclusionProof_def HasCovenantQuorums_def
          IsUnbondedEarly_def demoParsed_def demoCodec_def demoVerifier_def demoEnv_def
          demoParams0_def demoParams1_def demoFp_def demoDel_def demoState_def
          signedDel_def activeDel_def activeState_def orphanState_def slashedState_def
          demoEvidence_def foreignEvidence_def)
  have k: "snd (PrivKeyFromBytes (cdc demoEnv) (RecoveredFpBtcSk demoEvidence))
             \<in> set (FpBtcPkList activeDel)"
    and r: "finalityProviders orphanState
              (snd (PrivKeyFromBytes (cdc demoEnv) (RecoveredFpBtcSk demoEvidence))) = None"
    by (simp_all add: demoParsed_def demoCodec_def demoVerifier_def demoEnv_def
          demoParams0_def demoParams1_def demoFp_def demoDel_def demoState_def
          signedDel_def activeDel_def activeState_def orphanState_def slashedState_def
          demoEvidence_def foreignEvidence_def)
  have rest: "fst (SelectiveSlashingEvidence demoEnv foreignEvidence activeState)
                = Error ErrFpNotFound"
    "fst (SelectiveSlashingEvidence demoEnv demoEvidence slashedState)
                = Error ErrFpAlreadySlashed"
    "fst (SelectiveSlashingEvidence demoEnv demoEvidence activeState) = Ok ()"
    by (simp_all add: SelectiveSlashingEvidence_def SlashFinalityProvider_def
          setFinalityProvider_def GetFinalityProvider_def IsSlashed_def GetFpIdx_def
          IsUnbondedEarly_def getBTCDelWithParams_def GetBTCDelegation_def
          GetParamsByVersion_def IndexRefundableMsg_def Let_def GetStatus_def
          HasInclusionProof_def HasCovenantQuorums_def demoParsed_def demoCodec_def
          demoVerifier_def demoEnv_def demoParams0_def demoParams1_def demoFp_def
          demoDel_def demoState_def signedDel_def activeDel_def activeState_def
          orphanState_def slashedState_def demoEvidence_def foreignEvidence_def)
  from missing_registry_entry_panics[OF d1 p1, of demoEnv]
       missing_registry_entry_panics[OF d2 p2, of demoEnv]
  show ?thesis using k r st st2 rest by simp
qed

text \<open>
  C10 as stated fails for a delegation that does not pass the eligibility check: with a
  pending delegation, the recovered key in its provider list and no provider registered
  under that key, the handler does not panic; it returns the delegation-not-found error,
  a user error, although the key is in the list and no provider is slashed.
\<close>

theorem panic_on_missing_registry_entry_counterexample:
  "btcDelegations pendingOrphanState (EvidenceStakingTxHash demoEvidence) = Some demoDel
   \<and> snd (PrivKeyFromBytes (cdc demoEnv) (RecoveredFpBtcSk demoEvidence))
        \<in> set (FpBtcPkList demoDel)
   \<and> GetFinalityProvider pendingOrphanState
        (snd (PrivKeyFromBytes (cdc demoEnv) (RecoveredFpBtcSk demoEvidence)))
       = Inl ErrFpNotFound
   \<and> SelectiveSlashingEvidence demoEnv demoEvidence pendingOrphanState
       = (Error ErrBTCDelegationNotFound, pendingOrphanState)"
  by (simp add: SelectiveSlashingEvidence_def GetFinalityProvider_def
          IsUnbondedEarly_def getBTCDelWithParams_def GetBTCDelegation_def
          GetParamsByVersion_def Let_def GetStatus_def HasInclusionProof_def
          HasCovenantQuorums_def demoParsed_def demoCodec_def demoVerifier_def
          demoEnv_def demoParams0_def demoParams1_def demoFp_def demoDel_def
          demoState_def pendingOrphanState_def demoEvidence_def)

end
